theory Spec2Isabelle
  imports Complex_Main
begin

section \<open>JavaScript numbers\<close>

text \<open>
  The trajectory viewer (\<^verbatim>\<open>senf/trajectory-viewer/app.js\<close>) computes on JavaScript
  numbers. A number is modelled as a finite real, or one of the three special values
  \<^verbatim>\<open>NaN\<close>, \<^verbatim>\<open>Infinity\<close> and \<^verbatim>\<open>-Infinity\<close>. Rounding and overflow of the
  finite values are abstracted (a finite result is the exact real), and the two zeros
  are one value. The special values follow ECMAScript: they are what the code produces
  on an empty array (\<^verbatim>\<open>0 / 0\<close>, \<^verbatim>\<open>Math.min()\<close>) and on a token that is not a number.
\<close>

datatype jsnum = Fin real | NaN | PInf | NInf

fun js_neg :: "jsnum \<Rightarrow> jsnum" where
  "js_neg (Fin a) = Fin (- a)"
| "js_neg NaN = NaN"
| "js_neg PInf = NInf"
| "js_neg NInf = PInf"

fun js_add :: "jsnum \<Rightarrow> jsnum \<Rightarrow> jsnum" where
  "js_add (Fin a) (Fin b) = Fin (a + b)"
| "js_add (Fin a) PInf = PInf"
| "js_add (Fin a) NInf = NInf"
| "js_add PInf (Fin b) = PInf"
| "js_add PInf PInf = PInf"
| "js_add NInf (Fin b) = NInf"
| "js_add NInf NInf = NInf"
| "js_add _ _ = NaN"

definition js_sub :: "jsnum \<Rightarrow> jsnum \<Rightarrow> jsnum" where
  "js_sub a b = js_add a (js_neg b)"

text \<open>The sign of a product with an infinity; zero times infinity is \<^verbatim>\<open>NaN\<close>.\<close>

definition inf_signed :: "real \<Rightarrow> jsnum" where
  "inf_signed s = (if s > 0 then PInf else if s < 0 then NInf else NaN)"

fun js_mul :: "jsnum \<Rightarrow> jsnum \<Rightarrow> jsnum" where
  "js_mul (Fin a) (Fin b) = Fin (a * b)"
| "js_mul (Fin a) PInf = inf_signed a"
| "js_mul (Fin a) NInf = inf_signed (- a)"
| "js_mul PInf (Fin b) = inf_signed b"
| "js_mul NInf (Fin b) = inf_signed (- b)"
| "js_mul PInf PInf = PInf"
| "js_mul PInf NInf = NInf"
| "js_mul NInf PInf = NInf"
| "js_mul NInf NInf = PInf"
| "js_mul _ _ = NaN"

text \<open>
  Division never raises: a non-zero number over zero is an infinity and \<^verbatim>\<open>0 / 0\<close>
  is \<^verbatim>\<open>NaN\<close>. An infinity over a finite number keeps the sign of the quotient (the
  zero divisor counts as positive, the zeros being merged).
\<close>

fun js_div :: "jsnum \<Rightarrow> jsnum \<Rightarrow> jsnum" where
  "js_div (Fin a) (Fin b) = (if b = 0 then inf_signed a else Fin (a / b))"
| "js_div (Fin a) PInf = Fin 0"
| "js_div (Fin a) NInf = Fin 0"
| "js_div PInf (Fin b) = (if b < 0 then NInf else PInf)"
| "js_div NInf (Fin b) = (if b < 0 then PInf else NInf)"
| "js_div _ _ = NaN"

text \<open>\<^verbatim>\<open>x ** 2\<close>.\<close>

definition js_pow2 :: "jsnum \<Rightarrow> jsnum" where
  "js_pow2 a = js_mul a a"

text \<open>Comparisons: every comparison with \<^verbatim>\<open>NaN\<close> is false.\<close>

fun js_lt :: "jsnum \<Rightarrow> jsnum \<Rightarrow> bool" where
  "js_lt (Fin a) (Fin b) = (a < b)"
| "js_lt (Fin a) PInf = True"
| "js_lt NInf (Fin b) = True"
| "js_lt NInf PInf = True"
| "js_lt _ _ = False"

definition js_gt :: "jsnum \<Rightarrow> jsnum \<Rightarrow> bool" where
  "js_gt a b = js_lt b a"

definition js_le :: "jsnum \<Rightarrow> jsnum \<Rightarrow> bool" where
  "js_le a b = (a \<noteq> NaN \<and> b \<noteq> NaN \<and> \<not> js_lt b a)"

definition js_ge :: "jsnum \<Rightarrow> jsnum \<Rightarrow> bool" where
  "js_ge a b = js_le b a"

subsection \<open>The \<^verbatim>\<open>Math\<close> functions the code calls\<close>

definition Math_PI :: jsnum where
  "Math_PI = Fin pi"

fun Math_abs :: "jsnum \<Rightarrow> jsnum" where
  "Math_abs (Fin a) = Fin \<bar>a\<bar>"
| "Math_abs NaN = NaN"
| "Math_abs PInf = PInf"
| "Math_abs NInf = PInf"

fun Math_sign :: "jsnum \<Rightarrow> jsnum" where
  "Math_sign (Fin a) = Fin (sgn a)"
| "Math_sign NaN = NaN"
| "Math_sign PInf = Fin 1"
| "Math_sign NInf = Fin (- 1)"

fun Math_sqrt :: "jsnum \<Rightarrow> jsnum" where
  "Math_sqrt (Fin a) = (if a < 0 then NaN else Fin (sqrt a))"
| "Math_sqrt PInf = PInf"
| "Math_sqrt _ = NaN"

fun Math_asin :: "jsnum \<Rightarrow> jsnum" where
  "Math_asin (Fin a) = (if - 1 \<le> a \<and> a \<le> 1 then Fin (arcsin a) else NaN)"
| "Math_asin _ = NaN"

fun Math_cos :: "jsnum \<Rightarrow> jsnum" where
  "Math_cos (Fin a) = Fin (cos a)"
| "Math_cos _ = NaN"

text \<open>
  \<^verbatim>\<open>Math.atan2(y, x)\<close> on finite arguments is the angle of the point \<open>(x, y)\<close> in
  \<open>(-\<pi>, \<pi>]\<close>; with the zeros merged, \<^verbatim>\<open>atan2(0, x)\<close> for negative \<open>x\<close> is \<open>\<pi>\<close>.
\<close>

definition atan2_real :: "real \<Rightarrow> real \<Rightarrow> real" where
  "atan2_real y x =
     (if x > 0 then arctan (y / x)
      else if x < 0 then (if y \<ge> 0 then arctan (y / x) + pi else arctan (y / x) - pi)
      else if y > 0 then pi / 2
      else if y < 0 then - (pi / 2)
      else 0)"

fun Math_atan2 :: "jsnum \<Rightarrow> jsnum \<Rightarrow> jsnum" where
  "Math_atan2 (Fin y) (Fin x) = Fin (atan2_real y x)"
| "Math_atan2 (Fin y) PInf = Fin 0"
| "Math_atan2 (Fin y) NInf = Fin (if y \<ge> 0 then pi else - pi)"
| "Math_atan2 PInf (Fin x) = Fin (pi / 2)"
| "Math_atan2 PInf PInf = Fin (pi / 4)"
| "Math_atan2 PInf NInf = Fin (3 * pi / 4)"
| "Math_atan2 NInf (Fin x) = Fin (- (pi / 2))"
| "Math_atan2 NInf PInf = Fin (- (pi / 4))"
| "Math_atan2 NInf NInf = Fin (- (3 * pi / 4))"
| "Math_atan2 _ _ = NaN"

text \<open>\<^verbatim>\<open>Math.min\<close> and \<^verbatim>\<open>Math.max\<close> of two numbers: \<^verbatim>\<open>NaN\<close> if either is.\<close>

definition Math_min2 :: "jsnum \<Rightarrow> jsnum \<Rightarrow> jsnum" where
  "Math_min2 a b = (if a = NaN \<or> b = NaN then NaN else if js_lt b a then b else a)"

definition Math_max2 :: "jsnum \<Rightarrow> jsnum \<Rightarrow> jsnum" where
  "Math_max2 a b = (if a = NaN \<or> b = NaN then NaN else if js_lt a b then b else a)"

text \<open>
  \<^verbatim>\<open>Math.min(...arr)\<close> and \<^verbatim>\<open>Math.max(...arr)\<close> pass every element of the array as
  one argument of a single call. An engine takes only so many arguments in a call and
  raises \<^verbatim>\<open>RangeError\<close> beyond; the bound \<open>max_args\<close> depends on the engine and is a
  parameter of the model. Within the bound the result is that of the elements taken one
  after the other; with no element it is \<^verbatim>\<open>Infinity\<close> for the minimum and
  \<^verbatim>\<open>-Infinity\<close> for the maximum.
\<close>

datatype js_error = RangeError

definition Math_min :: "nat \<Rightarrow> jsnum list \<Rightarrow> js_error + jsnum" where
  "Math_min max_args arr =
     (if length arr > max_args then Inl RangeError else Inr (foldl Math_min2 PInf arr))"

definition Math_max :: "nat \<Rightarrow> jsnum list \<Rightarrow> js_error + jsnum" where
  "Math_max max_args arr =
     (if length arr > max_args then Inl RangeError else Inr (foldl Math_max2 NInf arr))"

subsection \<open>Arrays\<close>

text \<open>
  \<^verbatim>\<open>arr[i]\<close> where the value goes into arithmetic: an index outside the array reads
  \<^verbatim>\<open>undefined\<close>, which arithmetic converts to \<^verbatim>\<open>NaN\<close>.
\<close>

definition js_at :: "jsnum list \<Rightarrow> int \<Rightarrow> jsnum" where
  "js_at arr i = (if 0 \<le> i \<and> i < int (length arr) then arr ! nat i else NaN)"

section \<open>Math utilities\<close>

subsection \<open>\<^verbatim>\<open>quaternionToEuler\<close>\<close>

record euler =
  roll :: "jsnum list"
  pitch :: "jsnum list"
  yaw :: "jsnum list"

text \<open>
  The loop \<^verbatim>\<open>for (let i = 0; i < qw.length; i++)\<close>, with the three result arrays as
  the accumulator.
\<close>

function quaternionToEuler_loop ::
  "nat \<Rightarrow> jsnum list \<Rightarrow> jsnum list \<Rightarrow> jsnum list \<Rightarrow> jsnum list \<Rightarrow> euler \<Rightarrow> euler" where
  "quaternionToEuler_loop i qw qx qy qz acc =
     (if i < length qw then
        (let sinr_cosp = js_mul (Fin 2)
               (js_add (js_mul (js_at qw (int i)) (js_at qx (int i)))
                       (js_mul (js_at qy (int i)) (js_at qz (int i))));
             cosr_cosp = js_sub (Fin 1) (js_mul (Fin 2)
               (js_add (js_mul (js_at qx (int i)) (js_at qx (int i)))
                       (js_mul (js_at qy (int i)) (js_at qy (int i)))));
             roll_i = Math_atan2 sinr_cosp cosr_cosp;
             sinp = js_mul (Fin 2)
               (js_sub (js_mul (js_at qw (int i)) (js_at qy (int i)))
                       (js_mul (js_at qz (int i)) (js_at qx (int i))));
             pitch_i = (if js_ge (Math_abs sinp) (Fin 1)
                        then js_div (js_mul (Math_sign sinp) Math_PI) (Fin 2)
                        else Math_asin sinp);
             siny_cosp = js_mul (Fin 2)
               (js_add (js_mul (js_at qw (int i)) (js_at qz (int i)))
                       (js_mul (js_at qx (int i)) (js_at qy (int i))));
             cosy_cosp = js_sub (Fin 1) (js_mul (Fin 2)
               (js_add (js_mul (js_at qy (int i)) (js_at qy (int i)))
                       (js_mul (js_at qz (int i)) (js_at qz (int i)))));
             yaw_i = Math_atan2 siny_cosp cosy_cosp
         in quaternionToEuler_loop (i + 1) qw qx qy qz
              \<lparr> roll = roll acc @ [js_div (js_mul roll_i (Fin 180)) Math_PI],
                pitch = pitch acc @ [js_div (js_mul pitch_i (Fin 180)) Math_PI],
                yaw = yaw acc @ [js_div (js_mul yaw_i (Fin 180)) Math_PI] \<rparr>)
      else acc)"
  by pat_completeness auto
termination
  by (relation "measure (\<lambda>(i, qw, qx, qy, qz, acc). length qw - i)") auto

definition quaternionToEuler ::
  "jsnum list \<Rightarrow> jsnum list \<Rightarrow> jsnum list \<Rightarrow> jsnum list \<Rightarrow> euler" where
  "quaternionToEuler qw qx qy qz =
     quaternionToEuler_loop 0 qw qx qy qz \<lparr> roll = [], pitch = [], yaw = [] \<rparr>"

text \<open>
  The specification's wording of the same quantities, per sample: the angle in radians
  \<^emph>\<open>converted to degrees\<close>, and the pitch as the arc sine of the argument
  \<^emph>\<open>clamped to [-1, 1]\<close>.
\<close>

definition to_degrees :: "jsnum \<Rightarrow> jsnum" where
  "to_degrees r = js_div (js_mul r (Fin 180)) Math_PI"

definition spec_clamp :: "jsnum \<Rightarrow> jsnum \<Rightarrow> jsnum \<Rightarrow> jsnum" where
  "spec_clamp v lo hi = Math_max2 lo (Math_min2 hi v)"

definition spec_roll :: "jsnum \<Rightarrow> jsnum \<Rightarrow> jsnum \<Rightarrow> jsnum \<Rightarrow> jsnum" where
  "spec_roll w x y z =
     to_degrees (Math_atan2
       (js_mul (Fin 2) (js_add (js_mul w x) (js_mul y z)))
       (js_sub (Fin 1) (js_mul (Fin 2) (js_add (js_mul x x) (js_mul y y)))))"

definition spec_sinp :: "jsnum \<Rightarrow> jsnum \<Rightarrow> jsnum \<Rightarrow> jsnum \<Rightarrow> jsnum" where
  "spec_sinp w x y z = js_mul (Fin 2) (js_sub (js_mul w y) (js_mul z x))"

definition spec_pitch :: "jsnum \<Rightarrow> jsnum \<Rightarrow> jsnum \<Rightarrow> jsnum \<Rightarrow> jsnum" where
  "spec_pitch w x y z =
     to_degrees (Math_asin (spec_clamp (spec_sinp w x y z) (Fin (- 1)) (Fin 1)))"

definition spec_yaw :: "jsnum \<Rightarrow> jsnum \<Rightarrow> jsnum \<Rightarrow> jsnum \<Rightarrow> jsnum" where
  "spec_yaw w x y z =
     to_degrees (Math_atan2
       (js_mul (Fin 2) (js_add (js_mul w z) (js_mul x y)))
       (js_sub (Fin 1) (js_mul (Fin 2) (js_add (js_mul y y) (js_mul z z)))))"

section \<open>The sample store\<close>

text \<open>
  The object \<^verbatim>\<open>parseTrajectoryFile\<close> builds: seventeen arrays, one per channel. The
  bias channel \<^verbatim>\<open>by\<close> is the field \<open>by'\<close>.
\<close>

record trajectory =
  time :: "jsnum list"
  lat :: "jsnum list"
  lon :: "jsnum list"
  alt :: "jsnum list"
  vn :: "jsnum list"
  ve :: "jsnum list"
  vd :: "jsnum list"
  qw :: "jsnum list"
  qx :: "jsnum list"
  qy :: "jsnum list"
  qz :: "jsnum list"
  bx :: "jsnum list"
  by' :: "jsnum list"
  bz :: "jsnum list"
  gx :: "jsnum list"
  gy :: "jsnum list"
  gz :: "jsnum list"

text \<open>The seventeen channels in column order.\<close>

definition channels :: "trajectory \<Rightarrow> jsnum list list" where
  "channels d = [time d, lat d, lon d, alt d, vn d, ve d, vd d, qw d, qx d, qy d, qz d,
                 bx d, by' d, bz d, gx d, gy d, gz d]"

subsection \<open>\<^verbatim>\<open>computePositionError\<close>\<close>

definition R_EARTH :: jsnum where
  "R_EARTH = Fin 6378137"

record position_errors =
  north :: "jsnum list"
  east :: "jsnum list"
  down :: "jsnum list"
  horizontal :: "jsnum list"
  error3d :: "jsnum list"

function computePositionError_loop ::
  "nat \<Rightarrow> nat \<Rightarrow> trajectory \<Rightarrow> trajectory \<Rightarrow> position_errors \<Rightarrow> position_errors" where
  "computePositionError_loop i n ref test errors =
     (if i < n then
        (let ne = js_mul (js_sub (js_at (lat test) (int i)) (js_at (lat ref) (int i))) R_EARTH;
             ee = js_mul (js_mul (js_sub (js_at (lon test) (int i)) (js_at (lon ref) (int i))) R_EARTH)
                         (Math_cos (js_at (lat ref) (int i)));
             de = js_sub (js_at (alt test) (int i)) (js_at (alt ref) (int i));
             he = Math_sqrt (js_add (js_mul ne ne) (js_mul ee ee));
             e3d = Math_sqrt (js_add (js_add (js_mul ne ne) (js_mul ee ee)) (js_mul de de))
         in computePositionError_loop (i + 1) n ref test
              \<lparr> north = north errors @ [ne],
                east = east errors @ [ee],
                down = down errors @ [de],
                horizontal = horizontal errors @ [he],
                error3d = error3d errors @ [e3d] \<rparr>)
      else errors)"
  by pat_completeness auto
termination
  by (relation "measure (\<lambda>(i, n, ref, test, errors). n - i)") auto

definition computePositionError :: "trajectory \<Rightarrow> trajectory \<Rightarrow> position_errors" where
  "computePositionError ref test =
     (let n = min (length (lat ref)) (length (lat test))
      in computePositionError_loop 0 n ref test
           \<lparr> north = [], east = [], down = [], horizontal = [], error3d = [] \<rparr>)"

text \<open>
  The specification's down error: the flat-Earth formula of \<^verbatim>\<open>convertToNED\<close>
  (\<^verbatim>\<open>down.push(-(alt[i] - alt0))\<close>) applied to the test altitude with the reference
  altitude as the anchor.
\<close>

definition spec_down_err :: "jsnum \<Rightarrow> jsnum \<Rightarrow> jsnum" where
  "spec_down_err alt_test alt_ref = js_neg (js_sub alt_test alt_ref)"

subsection \<open>\<^verbatim>\<open>arrayStats\<close>\<close>

record stats =
  mean :: jsnum
  min_v :: jsnum
  max_v :: jsnum
  std :: jsnum

text \<open>
  \<^verbatim>\<open>arr.reduce(f, 0)\<close> is a left fold from 0; the divisor \<^verbatim>\<open>arr.length\<close> is a
  number, zero for the empty array. The statements run in the order of the source: the
  mean, the minimum and the maximum (either of which may raise), the deviation.
\<close>

definition arrayStats :: "nat \<Rightarrow> jsnum list \<Rightarrow> js_error + stats" where
  "arrayStats max_args arr =
     (let mean_l = js_div (foldl (\<lambda>a b. js_add a b) (Fin 0) arr) (Fin (real (length arr)))
      in case Math_min max_args arr of
           Inl e \<Rightarrow> Inl e
         | Inr min_l \<Rightarrow>
             (case Math_max max_args arr of
                Inl e \<Rightarrow> Inl e
              | Inr max_l \<Rightarrow>
                  (let std_l = Math_sqrt (js_div
                         (foldl (\<lambda>a b. js_add a (js_pow2 (js_sub b mean_l))) (Fin 0) arr)
                         (Fin (real (length arr))))
                   in Inr \<lparr> mean = mean_l, min_v = min_l, max_v = max_l, std = std_l \<rparr>)))"

section \<open>Trajectory analysis\<close>

text \<open>
  \<^verbatim>\<open>arr[i]\<close> where the value is stored as it is (the altitude and the velocities of
  \<^verbatim>\<open>initial\<close> and \<^verbatim>\<open>final\<close>): \<open>None\<close> is \<^verbatim>\<open>undefined\<close>.
\<close>

definition js_raw :: "jsnum list \<Rightarrow> int \<Rightarrow> jsnum option" where
  "js_raw arr i = (if 0 \<le> i \<and> i < int (length arr) then Some (arr ! nat i) else None)"

record state_summary =
  s_lat :: jsnum
  s_lon :: jsnum
  s_alt :: "jsnum option"
  s_vn :: "jsnum option"
  s_ve :: "jsnum option"
  s_vd :: "jsnum option"

record drift_summary =
  d_north :: jsnum
  d_east :: jsnum
  d_alt :: jsnum
  d_total :: jsnum

record checks_summary =
  altReasonable :: bool
  speedReasonable :: bool
  quatNormalized :: bool
  altRange :: "jsnum \<times> jsnum"
  maxSpeed :: jsnum
  quatRange :: "jsnum \<times> jsnum"

record analysis =
  samples :: nat
  duration :: jsnum
  initial :: state_summary
  final :: state_summary
  drift :: drift_summary
  speed :: stats
  checks :: checks_summary

text \<open>
  \<^verbatim>\<open>analyzeTrajectory\<close> raises what the two calls of \<^verbatim>\<open>arrayStats\<close> and the two
  spread calls of its \<^verbatim>\<open>altRange\<close> raise, in the order of the source.
\<close>

definition analyzeTrajectory :: "nat \<Rightarrow> trajectory \<Rightarrow> js_error + analysis" where
  "analyzeTrajectory max_args data =
     (let n = int (length (time data));
          duration_l = js_sub (js_at (time data) (n - 1)) (js_at (time data) 0);
          speed_l = map (\<lambda>i. Math_sqrt (js_add (js_add (js_pow2 (js_at (vn data) (int i)))
                                                       (js_pow2 (js_at (ve data) (int i))))
                                               (js_pow2 (js_at (vd data) (int i)))))
                        [0 ..< length (vn data)]
      in case arrayStats max_args speed_l of
           Inl e \<Rightarrow> Inl e
         | Inr speedStats \<Rightarrow>
      (let quatNorm = map (\<lambda>i. Math_sqrt (js_add (js_add (js_add (js_pow2 (js_at (qw data) (int i)))
                                                                (js_pow2 (js_at (qx data) (int i))))
                                                        (js_pow2 (js_at (qy data) (int i))))
                                                (js_pow2 (js_at (qz data) (int i)))))
                         [0 ..< length (qw data)]
       in case arrayStats max_args quatNorm of
            Inl e \<Rightarrow> Inl e
          | Inr quatStats \<Rightarrow>
      (let latDrift = js_mul (js_sub (js_at (lat data) (n - 1)) (js_at (lat data) 0)) R_EARTH;
           lonDrift = js_mul (js_mul (js_sub (js_at (lon data) (n - 1)) (js_at (lon data) 0)) R_EARTH)
                             (Math_cos (js_at (lat data) 0));
           altDrift = js_sub (js_at (alt data) (n - 1)) (js_at (alt data) 0);
           totalDrift = Math_sqrt (js_add (js_add (js_pow2 latDrift) (js_pow2 lonDrift))
                                          (js_pow2 altDrift));
           altReasonable_l = list_all (\<lambda>a. js_gt a (Fin (- 1000)) \<and> js_lt a (Fin 50000)) (alt data);
           speedReasonable_l = js_lt (max_v speedStats) (Fin 500);
           quatNormalized_l = list_all (\<lambda>q. js_lt (Math_abs (js_sub q (Fin 1))) (Fin (1 / 100))) quatNorm
       in case Math_min max_args (alt data) of
            Inl e \<Rightarrow> Inl e
          | Inr alt_min \<Rightarrow>
      (case Math_max max_args (alt data) of
            Inl e \<Rightarrow> Inl e
          | Inr alt_max \<Rightarrow>
         Inr \<lparr> samples = length (time data),
               duration = duration_l,
               initial = \<lparr> s_lat = js_div (js_mul (js_at (lat data) 0) (Fin 180)) Math_PI,
                           s_lon = js_div (js_mul (js_at (lon data) 0) (Fin 180)) Math_PI,
                           s_alt = js_raw (alt data) 0,
                           s_vn = js_raw (vn data) 0,
                           s_ve = js_raw (ve data) 0,
                           s_vd = js_raw (vd data) 0 \<rparr>,
               final = \<lparr> s_lat = js_div (js_mul (js_at (lat data) (n - 1)) (Fin 180)) Math_PI,
                         s_lon = js_div (js_mul (js_at (lon data) (n - 1)) (Fin 180)) Math_PI,
                         s_alt = js_raw (alt data) (n - 1),
                         s_vn = js_raw (vn data) (n - 1),
                         s_ve = js_raw (ve data) (n - 1),
                         s_vd = js_raw (vd data) (n - 1) \<rparr>,
               drift = \<lparr> d_north = latDrift, d_east = lonDrift, d_alt = altDrift,
                         d_total = totalDrift \<rparr>,
               speed = speedStats,
               checks = \<lparr> altReasonable = altReasonable_l,
                          speedReasonable = speedReasonable_l,
                          quatNormalized = quatNormalized_l,
                          altRange = (alt_min, alt_max),
                          maxSpeed = max_v speedStats,
                          quatRange = (min_v quatStats, max_v quatStats) \<rparr> \<rparr>))))"

subsection \<open>\<^verbatim>\<open>renderVerdict\<close>\<close>

text \<open>
  What \<^verbatim>\<open>renderVerdict\<close> writes into the verdict card: whether all three checks
  passed, the issue list, the title and the description. \<open>toFixed1\<close> stands for
  \<^verbatim>\<open>Number.prototype.toFixed(1)\<close>, the platform's formatting of the maximal speed.
\<close>

record verdict =
  passed :: bool
  issues :: "string list"
  title :: string
  description :: string

fun join :: "string \<Rightarrow> string list \<Rightarrow> string" where
  "join sep [] = []"
| "join sep [s] = s"
| "join sep (s # t # ss) = s @ sep @ join sep (t # ss)"

definition renderVerdict :: "(jsnum \<Rightarrow> string) \<Rightarrow> analysis \<Rightarrow> verdict" where
  "renderVerdict toFixed1 testAnalysis =
     (let passed_l = altReasonable (checks testAnalysis) \<and>
                     speedReasonable (checks testAnalysis) \<and>
                     quatNormalized (checks testAnalysis);
          issues0 = [];
          issues1 = (if \<not> altReasonable (checks testAnalysis)
                     then issues0 @ [''Altitude out of bounds''] else issues0);
          issues2 = (if \<not> speedReasonable (checks testAnalysis)
                     then issues1 @ [''Speed too high (max: '' @
                                      toFixed1 (maxSpeed (checks testAnalysis)) @ '' m/s)'']
                     else issues1);
          issues3 = (if \<not> quatNormalized (checks testAnalysis)
                     then issues2 @ [''Quaternion not normalized''] else issues2)
      in \<lparr> passed = passed_l,
           issues = issues3,
           title = (if passed_l then ''PHYSICALLY REASONABLE'' else ''PHYSICALLY UNREASONABLE''),
           description =
             (if passed_l
              then ''The SENF output shows reasonable behavior. Altitude stays within realistic bounds and velocity stays within reasonable limits.''
              else ''Issues detected: '' @ join '', '' issues3) \<rparr>)"

text \<open>
  The specification's altitude check, in its words: every altitude within the closed
  interval from -1000 to 50000 metres.
\<close>

definition spec_alt_in_range :: "jsnum \<Rightarrow> bool" where
  "spec_alt_in_range a = (js_ge a (Fin (- 1000)) \<and> js_le a (Fin 50000))"

definition spec_altReasonable :: "trajectory \<Rightarrow> bool" where
  "spec_altReasonable data = list_all spec_alt_in_range (alt data)"

section \<open>Playback\<close>

text \<open>
  The state the play button and the animation loop work on: the loaded test store
  (\<open>None\<close> is \<^verbatim>\<open>null\<close>), the record \<^verbatim>\<open>threeScene.playback\<close>, the \<^verbatim>\<open>display\<close>
  styles of the two icons, the slider's value and the index last given to
  \<^verbatim>\<open>updatePlanePosition\<close>. The index is an integer: it starts at 0, the slider sets it
  by \<^verbatim>\<open>parseInt\<close>, and a tick adds 5 or sets it to the last index, so that
  \<^verbatim>\<open>Math.floor\<close> leaves it as it is.
\<close>

record viewer =
  testData :: "trajectory option"
  isPlaying :: bool
  index :: int
  lastFrameTime :: real
  playIcon_display :: string
  pauseIcon_display :: string
  slider_value :: int
  plane_index :: int

text \<open>\<open>now\<close> is the value of \<^verbatim>\<open>performance.now()\<close>.\<close>

definition togglePlay :: "real \<Rightarrow> viewer \<Rightarrow> viewer" where
  "togglePlay now v =
     (case testData v of
        None \<Rightarrow> v
      | Some td \<Rightarrow>
          (let v1 = v \<lparr> isPlaying := \<not> isPlaying v \<rparr>
           in if isPlaying v1 then
                (let v2 = v1 \<lparr> playIcon_display := ''none'', pauseIcon_display := ''block'',
                               lastFrameTime := now \<rparr>
                 in if index v2 \<ge> int (length (time td)) - 1
                    then v2 \<lparr> index := 0 \<rparr> else v2)
              else v1 \<lparr> playIcon_display := ''block'', pauseIcon_display := ''none'' \<rparr>))"

text \<open>
  The playback part of \<^verbatim>\<open>animate(time)\<close>, one call per rendering frame. The
  elapsed time \<^verbatim>\<open>dt\<close> is computed and not used.
\<close>

definition animate :: "real \<Rightarrow> real \<Rightarrow> viewer \<Rightarrow> viewer" where
  "animate t now v =
     (if isPlaying v then
        (case testData v of
           None \<Rightarrow> v
         | Some td \<Rightarrow>
             (let dt = (t - lastFrameTime v) / 1000;
                  v1 = v \<lparr> lastFrameTime := t \<rparr>;
                  speedMultiplier = 5;
                  v2 = v1 \<lparr> index := min (int (length (time td)) - 1)
                                        (index v1 + speedMultiplier) \<rparr>;
                  intIndex = index v2;
                  v3 = v2 \<lparr> slider_value := intIndex, plane_index := intIndex \<rparr>
              in if intIndex \<ge> int (length (time td)) - 1 then togglePlay now v3 else v3))
      else v)"

section \<open>Chase camera\<close>

text \<open>
  \<^verbatim>\<open>chaseCameraState\<close> together with the handlers' variable \<^verbatim>\<open>touchStartDistance\<close>.
  Pointer coordinates and wheel deltas are finite numbers, here reals.
\<close>

record chaseCameraState =
  distance :: real
  azimuth :: real
  elevation :: real
  isDragging :: bool
  lastMouseX :: real
  lastMouseY :: real
  touchStartDistance :: real

definition chase_initial :: chaseCameraState where
  "chase_initial = \<lparr> distance = 30, azimuth = pi, elevation = 3 / 10, isDragging = False,
                      lastMouseX = 0, lastMouseY = 0, touchStartDistance = 0 \<rparr>"

text \<open>
  An event carries what its handler reads: \<^verbatim>\<open>clientX\<close> and \<^verbatim>\<open>clientY\<close> of a mouse
  event, \<^verbatim>\<open>deltaY\<close> of a wheel event, the list \<^verbatim>\<open>e.touches\<close> of a touch event.
\<close>

datatype chase_event =
    MouseDown real real
  | MouseMove real real
  | MouseUp
  | MouseLeave
  | Wheel real
  | TouchStart "(real \<times> real) list"
  | TouchMove "(real \<times> real) list"
  | TouchEnd "(real \<times> real) list"
  | TouchCancel

definition rotate_to :: "real \<Rightarrow> real \<Rightarrow> chaseCameraState \<Rightarrow> chaseCameraState" where
  "rotate_to clientX clientY c =
     (let deltaX = clientX - lastMouseX c;
          deltaY = clientY - lastMouseY c
      in c \<lparr> azimuth := azimuth c + deltaX * (1 / 100),
             elevation := max (- pi / 2 + 1 / 10)
                              (min (pi / 2 - 1 / 10) (elevation c + deltaY * (1 / 100))),
             lastMouseX := clientX,
             lastMouseY := clientY \<rparr>)"

fun chase_handle :: "chaseCameraState \<Rightarrow> chase_event \<Rightarrow> chaseCameraState" where
  "chase_handle c (MouseDown clientX clientY) =
     c \<lparr> isDragging := True, lastMouseX := clientX, lastMouseY := clientY \<rparr>"
| "chase_handle c (MouseMove clientX clientY) =
     (if \<not> isDragging c then c else rotate_to clientX clientY c)"
| "chase_handle c MouseUp = c \<lparr> isDragging := False \<rparr>"
| "chase_handle c MouseLeave = c \<lparr> isDragging := False \<rparr>"
| "chase_handle c (Wheel deltaY) =
     (let delta = deltaY * (5 / 100)
      in c \<lparr> distance := max 5 (min 200 (distance c + delta)) \<rparr>)"
| "chase_handle c (TouchStart touches) =
     (case touches of
        [t0] \<Rightarrow> c \<lparr> isDragging := True, lastMouseX := fst t0, lastMouseY := snd t0 \<rparr>
      | [t0, t1] \<Rightarrow>
          (let dx = fst t0 - fst t1; dy = snd t0 - snd t1
           in c \<lparr> isDragging := False, touchStartDistance := sqrt (dx * dx + dy * dy) \<rparr>)
      | _ \<Rightarrow> c)"
| "chase_handle c (TouchMove touches) =
     (case touches of
        [t0] \<Rightarrow> (if isDragging c then rotate_to (fst t0) (snd t0) c else c)
      | [t0, t1] \<Rightarrow>
          (let dx = fst t0 - fst t1; dy = snd t0 - snd t1;
               dist = sqrt (dx * dx + dy * dy)
           in if touchStartDistance c > 0 then
                (let delta = (touchStartDistance c - dist) * (2 / 10)
                 in c \<lparr> distance := max 5 (min 200 (distance c + delta)),
                        touchStartDistance := dist \<rparr>)
              else c)
      | _ \<Rightarrow> c)"
| "chase_handle c (TouchEnd touches) =
     (case touches of
        [] \<Rightarrow> c \<lparr> isDragging := False, touchStartDistance := 0 \<rparr>
      | [t0] \<Rightarrow> c \<lparr> isDragging := True, lastMouseX := fst t0, lastMouseY := snd t0,
                     touchStartDistance := 0 \<rparr>
      | _ \<Rightarrow> c)"
| "chase_handle c TouchCancel = c \<lparr> isDragging := False, touchStartDistance := 0 \<rparr>"

definition chase_run :: "chase_event list \<Rightarrow> chaseCameraState" where
  "chase_run evs = foldl chase_handle chase_initial evs"

section \<open>Zoom history\<close>

text \<open>
  A snapshot is the pair of axis ranges \<^verbatim>\<open>{x: {min, max}, y: {min, max}}\<close>. Of a chart,
  the model keeps the current ranges of its two scales and the full ranges of its data
  (the \<^verbatim>\<open>'original'\<close> limits). The charting library's \<^verbatim>\<open>zoomScale\<close> sets a scale to
  the range it is given, and its \<^verbatim>\<open>resetZoom\<close> restores the full ranges.
\<close>

record axis_range =
  range_min :: real
  range_max :: real

record zoom_state =
  zx :: axis_range
  zy :: axis_range

record chart =
  scales :: zoom_state
  original :: zoom_state

text \<open>
  The module state: \<^verbatim>\<open>zoomHistory\<close> (an object used as a dictionary from chart names
  to arrays), the dictionary \<^verbatim>\<open>charts\<close> and \<^verbatim>\<open>modalChart\<close> (\<open>None\<close> is \<^verbatim>\<open>null\<close>).
\<close>

record zoom_app =
  zoomHistory :: "string \<rightharpoonup> zoom_state list"
  charts :: "string \<rightharpoonup> chart"
  modalChart :: "chart option"

definition zoomHistory_initial :: "string \<rightharpoonup> zoom_state list" where
  "zoomHistory_initial =
     [''attitude'' \<mapsto> [], ''velocity'' \<mapsto> [], ''error'' \<mapsto> [], ''modal'' \<mapsto> []]"

definition saveZoomState :: "string \<Rightarrow> chart \<Rightarrow> zoom_app \<Rightarrow> zoom_app" where
  "saveZoomState chartName ch app =
     (let state = \<lparr> zx = \<lparr> range_min = range_min (zx (scales ch)),
                            range_max = range_max (zx (scales ch)) \<rparr>,
                     zy = \<lparr> range_min = range_min (zy (scales ch)),
                            range_max = range_max (zy (scales ch)) \<rparr> \<rparr>;
          h0 = (case zoomHistory app chartName of None \<Rightarrow> [] | Some h \<Rightarrow> h);
          h1 = h0 @ [state];
          h2 = (if length h1 > 20 then tl h1 else h1)
      in app \<lparr> zoomHistory := (zoomHistory app)(chartName \<mapsto> h2) \<rparr>)"

text \<open>
  The chart a name stands for in \<^verbatim>\<open>undoZoom\<close>:
  \<^verbatim>\<open>chartName === 'modal' ? modalChart : charts[chartName]\<close>.
\<close>

definition chart_of :: "zoom_app \<Rightarrow> string \<Rightarrow> chart option" where
  "chart_of app chartName =
     (if chartName = ''modal'' then modalChart app else charts app chartName)"

definition put_chart :: "string \<Rightarrow> chart \<Rightarrow> zoom_app \<Rightarrow> zoom_app" where
  "put_chart chartName ch app =
     (if chartName = ''modal'' then app \<lparr> modalChart := Some ch \<rparr>
      else app \<lparr> charts := (charts app)(chartName \<mapsto> ch) \<rparr>)"

text \<open>
  \<^verbatim>\<open>onZoomStart\<close>: the snapshot is saved under the name \<^verbatim>\<open>getChartName\<close> finds
  for the chart being zoomed, a key of \<^verbatim>\<open>charts\<close> or else \<^verbatim>\<open>'modal'\<close> for the modal
  chart; a chart with no name saves nothing.
\<close>

definition onZoomStart :: "string \<Rightarrow> zoom_app \<Rightarrow> zoom_app" where
  "onZoomStart chartName app =
     (case charts app chartName of
        Some ch \<Rightarrow> saveZoomState chartName ch app
      | None \<Rightarrow>
          (if chartName = ''modal'' then
             (case modalChart app of
                Some ch \<Rightarrow> saveZoomState ''modal'' ch app
              | None \<Rightarrow> app)
           else app))"

text \<open>\<^verbatim>\<open>undoZoom\<close> returns its boolean together with the new state.\<close>

definition undoZoom :: "string \<Rightarrow> zoom_app \<Rightarrow> bool \<times> zoom_app" where
  "undoZoom chartName app =
     (case chart_of app chartName of
        None \<Rightarrow> (False, app)
      | Some ch \<Rightarrow>
          (case zoomHistory app chartName of
             None \<Rightarrow> (False, app)
           | Some h \<Rightarrow>
               if length h = 0 then (False, app)
               else
                 (let prevState = last h;
                      app1 = app \<lparr> zoomHistory := (zoomHistory app)(chartName \<mapsto> butlast h) \<rparr>;
                      ch1 = ch \<lparr> scales := (scales ch) \<lparr> zx := \<lparr> range_min = range_min (zx prevState),
                                                                 range_max = range_max (zx prevState) \<rparr> \<rparr> \<rparr>;
                      ch2 = ch1 \<lparr> scales := (scales ch1) \<lparr> zy := \<lparr> range_min = range_min (zy prevState),
                                                                   range_max = range_max (zy prevState) \<rparr> \<rparr> \<rparr>
                  in (True, put_chart chartName ch2 app1))))"

text \<open>The click handler of a \<^verbatim>\<open>.btn-reset-zoom\<close> button and that of \<^verbatim>\<open>modal-reset-zoom\<close>.\<close>

definition resetZoom_click :: "string \<Rightarrow> zoom_app \<Rightarrow> zoom_app" where
  "resetZoom_click chartName app =
     (case charts app chartName of
        None \<Rightarrow> app
      | Some ch \<Rightarrow>
          app \<lparr> charts := (charts app)(chartName \<mapsto> ch \<lparr> scales := original ch \<rparr>),
                zoomHistory := (zoomHistory app)(chartName \<mapsto> []) \<rparr>)"

definition modal_resetZoom_click :: "zoom_app \<Rightarrow> zoom_app" where
  "modal_resetZoom_click app =
     (case modalChart app of
        None \<Rightarrow> app
      | Some ch \<Rightarrow>
          app \<lparr> modalChart := Some (ch \<lparr> scales := original ch \<rparr>),
                zoomHistory := (zoomHistory app)(''modal'' \<mapsto> []) \<rparr>)"

text \<open>The operations on the zoom histories, and a run of them.\<close>

datatype zoom_op =
    ZoomStart string
  | Undo string
  | Reset string
  | ModalReset

fun zoom_step :: "zoom_app \<Rightarrow> zoom_op \<Rightarrow> zoom_app" where
  "zoom_step app (ZoomStart chartName) = onZoomStart chartName app"
| "zoom_step app (Undo chartName) = snd (undoZoom chartName app)"
| "zoom_step app (Reset chartName) = resetZoom_click chartName app"
| "zoom_step app ModalReset = modal_resetZoom_click app"

definition zoom_run :: "zoom_app \<Rightarrow> zoom_op list \<Rightarrow> zoom_app" where
  "zoom_run app ops = foldl zoom_step app ops"

section \<open>Data parsing\<close>

text \<open>
  A JavaScript string is its list of UTF-16 code units. \<open>is_space\<close> is the set that
  both \<^verbatim>\<open>String.prototype.trim\<close> and the pattern \<^verbatim>\<open>\s\<close> use: the white space and
  line terminator code points of ECMAScript.
\<close>

type_synonym js_string = "nat list"

definition is_space :: "nat \<Rightarrow> bool" where
  "is_space c =
     (c = 9 \<or> c = 10 \<or> c = 11 \<or> c = 12 \<or> c = 13 \<or> c = 32 \<or> c = 160 \<or> c = 5760 \<or>
      (8192 \<le> c \<and> c \<le> 8202) \<or> c = 8232 \<or> c = 8233 \<or> c = 8239 \<or> c = 8287 \<or>
      c = 12288 \<or> c = 65279)"

definition trim :: "js_string \<Rightarrow> js_string" where
  "trim s = rev (dropWhile is_space (rev (dropWhile is_space s)))"

text \<open>
  \<^verbatim>\<open>s.split('\n')\<close>: the pieces between the separators, with the piece read so far
  as the accumulator; the empty string gives one empty piece.
\<close>

fun split_char :: "nat \<Rightarrow> js_string \<Rightarrow> js_string \<Rightarrow> js_string list" where
  "split_char sep cur [] = [cur]"
| "split_char sep cur (c # cs) =
     (if c = sep then cur # split_char sep [] cs else split_char sep (cur @ [c]) cs)"

text \<open>
  \<^verbatim>\<open>s.split(/\s+/)\<close>: a separator is a maximal run of white space. The flag says that
  the last code unit read was white space, so that the run goes on.
\<close>

fun split_spaces :: "js_string \<Rightarrow> bool \<Rightarrow> js_string \<Rightarrow> js_string list" where
  "split_spaces cur in_run [] = [cur]"
| "split_spaces cur in_run (c # cs) =
     (if is_space c then
        (if in_run then split_spaces cur True cs else cur # split_spaces [] True cs)
      else split_spaces (cur @ [c]) False cs)"

text \<open>The tokens of a line: \<^verbatim>\<open>line.trim().split(/\s+/)\<close>.\<close>

definition tokens :: "js_string \<Rightarrow> js_string list" where
  "tokens line = split_spaces [] False (trim line)"

text \<open>The lines after the header: \<^verbatim>\<open>content.trim().split('\n').slice(1)\<close>.\<close>

definition dataLines :: "js_string \<Rightarrow> js_string list" where
  "dataLines content = drop 1 (split_char 10 [] (trim content))"

definition empty_trajectory :: trajectory where
  "empty_trajectory =
     \<lparr> time = [], lat = [], lon = [], alt = [], vn = [], ve = [], vd = [],
       qw = [], qx = [], qy = [], qz = [], bx = [], by' = [], bz = [],
       gx = [], gy = [], gz = [] \<rparr>"

text \<open>
  The body of the \<^verbatim>\<open>forEach\<close>. \<open>parseFloat\<close> is the platform's function, a parameter
  of the model; its result is a number, \<^verbatim>\<open>NaN\<close> for a token that starts with no
  number.
\<close>

definition parse_line :: "(js_string \<Rightarrow> jsnum) \<Rightarrow> trajectory \<Rightarrow> js_string \<Rightarrow> trajectory" where
  "parse_line parseFloat data line =
     (let values = map parseFloat (tokens line)
      in if length values \<ge> 17 then
           data \<lparr> time := time data @ [values ! 0],
                  lat := lat data @ [values ! 1],
                  lon := lon data @ [values ! 2],
                  alt := alt data @ [values ! 3],
                  vn := vn data @ [values ! 4],
                  ve := ve data @ [values ! 5],
                  vd := vd data @ [values ! 6],
                  qw := qw data @ [values ! 7],
                  qx := qx data @ [values ! 8],
                  qy := qy data @ [values ! 9],
                  qz := qz data @ [values ! 10],
                  bx := bx data @ [values ! 11],
                  by' := by' data @ [values ! 12],
                  bz := bz data @ [values ! 13],
                  gx := gx data @ [values ! 14],
                  gy := gy data @ [values ! 15],
                  gz := gz data @ [values ! 16] \<rparr>
         else data)"

definition parseTrajectoryFile :: "(js_string \<Rightarrow> jsnum) \<Rightarrow> js_string \<Rightarrow> trajectory" where
  "parseTrajectoryFile parseFloat content =
     foldl (parse_line parseFloat) empty_trajectory (dataLines content)"

text \<open>
  The rows a file holds, in the specification's terms: of every data line with at least
  17 tokens, the numbers \<open>parseFloat\<close> reads from the first 17.
\<close>

definition rows_of_lines :: "(js_string \<Rightarrow> jsnum) \<Rightarrow> js_string list \<Rightarrow> jsnum list list" where
  "rows_of_lines parseFloat ls =
     map (\<lambda>line. map parseFloat (take 17 (tokens line)))
         (filter (\<lambda>line. length (tokens line) \<ge> 17) ls)"

definition rows :: "(js_string \<Rightarrow> jsnum) \<Rightarrow> js_string \<Rightarrow> jsnum list list" where
  "rows parseFloat content = rows_of_lines parseFloat (dataLines content)"

section \<open>Concrete inputs\<close>

text \<open>
  A well-formed store of one sample at latitude and longitude 0, with velocity
  \<open>(10, 0, 0)\<close> and the identity quaternion, at the given time and altitude.
\<close>

definition one_sample :: "jsnum \<Rightarrow> jsnum \<Rightarrow> trajectory" where
  "one_sample t a =
     \<lparr> time = [t], lat = [Fin 0], lon = [Fin 0], alt = [a],
       vn = [Fin 10], ve = [Fin 0], vd = [Fin 0],
       qw = [Fin 1], qx = [Fin 0], qy = [Fin 0], qz = [Fin 0],
       bx = [Fin 0], by' = [Fin 0], bz = [Fin 0],
       gx = [Fin 0], gy = [Fin 0], gz = [Fin 0] \<rparr>"

text \<open>The same sample with the quaternion \<open>(1, 0, 1, 0)\<close>, which lies beyond the gimbal pole.\<close>

definition pole_store :: trajectory where
  "pole_store = (one_sample (Fin 0) (Fin 100)) \<lparr> qy := [Fin 1] \<rparr>"

text \<open>
  An argument limit for the evaluations below, of the order of that of the engines; they
  hold for every limit of at least 1.
\<close>

definition args_100000 :: nat where
  "args_100000 = 100000"

text \<open>
  A well-formed store of \<open>n\<close> samples, one per second, in level flight with the identity
  quaternion.
\<close>

definition steady_store :: "nat \<Rightarrow> trajectory" where
  "steady_store n =
     \<lparr> time = map (\<lambda>k. Fin (real k)) [0 ..< n],
       lat = replicate n (Fin 0), lon = replicate n (Fin 0), alt = replicate n (Fin 100),
       vn = replicate n (Fin 10), ve = replicate n (Fin 0), vd = replicate n (Fin 0),
       qw = replicate n (Fin 1), qx = replicate n (Fin 0), qy = replicate n (Fin 0),
       qz = replicate n (Fin 0),
       bx = replicate n (Fin 0), by' = replicate n (Fin 0), bz = replicate n (Fin 0),
       gx = replicate n (Fin 0), gy = replicate n (Fin 0), gz = replicate n (Fin 0) \<rparr>"

text \<open>A viewer on the given test store, at the given index, playing or paused.\<close>

definition viewer_at :: "trajectory option \<Rightarrow> bool \<Rightarrow> int \<Rightarrow> viewer" where
  "viewer_at td playing i =
     \<lparr> testData = td, isPlaying = playing, index = i, lastFrameTime = 0,
       playIcon_display = (if playing then ''none'' else ''block''),
       pauseIcon_display = (if playing then ''block'' else ''none''),
       slider_value = i, plane_index = i \<rparr>"

text \<open>The bounds of the chase camera: elevation strictly inside the poles, distance in \<open>[5, 200]\<close>.\<close>

definition chase_bounds :: "chaseCameraState \<Rightarrow> bool" where
  "chase_bounds c =
     (- (pi / 2) < elevation c \<and> elevation c < pi / 2 \<and> 5 \<le> distance c \<and> distance c \<le> 200)"

text \<open>
  The zoom state when the page has loaded its charts: the four histories empty, the
  given charts and modal chart.
\<close>

definition zoom_initial :: "(string \<rightharpoonup> chart) \<Rightarrow> chart option \<Rightarrow> zoom_app" where
  "zoom_initial cs mc = \<lparr> zoomHistory = zoomHistory_initial, charts = cs, modalChart = mc \<rparr>"

text \<open>Two views of a chart over \<open>[0, 100] \<times> [-10, 10]\<close>: the full one and a zoomed one.\<close>

definition full_view :: zoom_state where
  "full_view = \<lparr> zx = \<lparr> range_min = 0, range_max = 100 \<rparr>,
                  zy = \<lparr> range_min = - 10, range_max = 10 \<rparr> \<rparr>"

definition zoomed_view :: zoom_state where
  "zoomed_view = \<lparr> zx = \<lparr> range_min = 20, range_max = 40 \<rparr>,
                    zy = \<lparr> range_min = - 10, range_max = 10 \<rparr> \<rparr>"

definition attitude_only :: "string \<rightharpoonup> chart" where
  "attitude_only = [''attitude'' \<mapsto> \<lparr> scales = full_view, original = full_view \<rparr>]"

definition zoomed_twice :: zoom_app where
  "zoomed_twice =
     \<lparr> zoomHistory = zoomHistory_initial(''attitude'' \<mapsto> [full_view, zoomed_view]),
       charts = [''attitude'' \<mapsto> \<lparr> scales = full_view, original = full_view \<rparr>],
       modalChart = None \<rparr>"

definition full_history :: zoom_app where
  "full_history =
     \<lparr> zoomHistory = zoomHistory_initial(''attitude'' \<mapsto> replicate 20 full_view),
       charts = [''attitude'' \<mapsto> \<lparr> scales = zoomed_view, original = full_view \<rparr>],
       modalChart = None \<rparr>"

text \<open>
  A file of three lines: the header \<^verbatim>\<open>t\<close>, the row
  \<^verbatim>\<open>1 2 3 4 5 6 7 8 9 1 2 3 4 5 6 x 8\<close> of 17 tokens, the sixteenth not a number, and
  the short row \<^verbatim>\<open>1 2\<close>. \<open>digit_or_NaN\<close> is what \<^verbatim>\<open>parseFloat\<close> gives on tokens of
  one character.
\<close>

definition sample_file :: js_string where
  "sample_file =
     [116, 10,
      49, 32, 50, 32, 51, 32, 52, 32, 53, 32, 54, 32, 55, 32, 56, 32, 57, 32,
      49, 32, 50, 32, 51, 32, 52, 32, 53, 32, 54, 32, 120, 32, 56, 10,
      49, 32, 50]"

definition digit_or_NaN :: "js_string \<Rightarrow> jsnum" where
  "digit_or_NaN tok =
     (case tok of
        [c] \<Rightarrow> if 48 \<le> c \<and> c \<le> 57 then Fin (real (c - 48)) else NaN
      | _ \<Rightarrow> NaN)"

chapter \<open>Verification\<close>

section \<open>Properties of \<^verbatim>\<open>quaternionToEuler\<close>\<close>

declare quaternionToEuler_loop.simps [simp del]

lemma pitch_clamped:
  "(if js_ge (Math_abs s) (Fin 1) then js_div (js_mul (Math_sign s) Math_PI) (Fin 2) else Math_asin s)
   = Math_asin (spec_clamp s (Fin (- 1)) (Fin 1))"
proof (cases s)
  case (Fin a)
  then show ?thesis
    by (auto simp: js_ge_def js_le_def spec_clamp_def Math_max2_def Math_min2_def Math_PI_def sgn_if)
qed (simp_all add: js_ge_def js_le_def spec_clamp_def Math_max2_def Math_min2_def Math_PI_def inf_signed_def)

lemma pitch_at_pole:
  "js_ge (Math_abs s) (Fin 1) \<Longrightarrow>
   Math_asin (spec_clamp s (Fin (- 1)) (Fin 1)) = js_div (js_mul (Math_sign s) Math_PI) (Fin 2)"
  using pitch_clamped [of s] by simp

lemma quaternionToEuler_loop_eq:
  "quaternionToEuler_loop i ws xs ys zs acc =
     \<lparr> roll = roll acc @ map (\<lambda>k. spec_roll (js_at ws (int k)) (js_at xs (int k)) (js_at ys (int k)) (js_at zs (int k))) [i ..< length ws],
       pitch = pitch acc @ map (\<lambda>k. spec_pitch (js_at ws (int k)) (js_at xs (int k)) (js_at ys (int k)) (js_at zs (int k))) [i ..< length ws],
       yaw = yaw acc @ map (\<lambda>k. spec_yaw (js_at ws (int k)) (js_at xs (int k)) (js_at ys (int k)) (js_at zs (int k))) [i ..< length ws] \<rparr>"
proof (induction i ws xs ys zs acc rule: quaternionToEuler_loop.induct)
  case (1 i ws xs ys zs acc)
  show ?case
  proof (cases "i < length ws")
    case True
    then have up: "[i ..< length ws] = i # [Suc i ..< length ws]"
      by (simp add: upt_conv_Cons)
    note IH = 1 [OF True refl refl refl refl refl refl refl refl]
    show ?thesis
      apply (subst quaternionToEuler_loop.simps)
      apply (simp only: True if_True Let_def)
      apply (subst IH)
      apply (simp add: up pitch_clamped spec_roll_def spec_pitch_def spec_yaw_def spec_sinp_def to_degrees_def)
      done
  next
    case False
    then show ?thesis
      by (subst quaternionToEuler_loop.simps) simp
  qed
qed

lemma quaternionToEuler_eq:
  "quaternionToEuler ws xs ys zs =
     \<lparr> roll = map (\<lambda>k. spec_roll (js_at ws (int k)) (js_at xs (int k)) (js_at ys (int k)) (js_at zs (int k))) [0 ..< length ws],
       pitch = map (\<lambda>k. spec_pitch (js_at ws (int k)) (js_at xs (int k)) (js_at ys (int k)) (js_at zs (int k))) [0 ..< length ws],
       yaw = map (\<lambda>k. spec_yaw (js_at ws (int k)) (js_at xs (int k)) (js_at ys (int k)) (js_at zs (int k))) [0 ..< length ws] \<rparr>"
  by (simp add: quaternionToEuler_def quaternionToEuler_loop_eq)

text \<open>
  C1. For every sample store, \<^verbatim>\<open>quaternionToEuler\<close> returns one roll, pitch and yaw per
  sample. At sample \<open>i\<close>, with \<open>w, x, y, z\<close> the four quaternion components of that sample:
  the roll is \<open>atan2(2(w x + y z), 1 - 2(x\<^sup>2 + y\<^sup>2))\<close>, the pitch is the arc sine of
  \<open>2(w y - z x)\<close> clamped to \<open>[-1, 1]\<close>, which is exactly \<open>sign(\<cdot>) \<pi> / 2\<close> when the absolute
  value of the argument is at least 1, and the yaw is \<open>atan2(2(w z + x y), 1 - 2(y\<^sup>2 + z\<^sup>2))\<close>;
  all three are converted to degrees.
\<close>

theorem quaternionToEuler_formulas:
  assumes "i < length (qw d)"
  shows "length (roll (quaternionToEuler (qw d) (qx d) (qy d) (qz d))) = length (qw d)
       \<and> length (pitch (quaternionToEuler (qw d) (qx d) (qy d) (qz d))) = length (qw d)
       \<and> length (yaw (quaternionToEuler (qw d) (qx d) (qy d) (qz d))) = length (qw d)
       \<and> roll (quaternionToEuler (qw d) (qx d) (qy d) (qz d)) ! i =
           to_degrees (Math_atan2
             (js_mul (Fin 2) (js_add (js_mul (js_at (qw d) (int i)) (js_at (qx d) (int i)))
                                     (js_mul (js_at (qy d) (int i)) (js_at (qz d) (int i)))))
             (js_sub (Fin 1) (js_mul (Fin 2)
                (js_add (js_mul (js_at (qx d) (int i)) (js_at (qx d) (int i)))
                        (js_mul (js_at (qy d) (int i)) (js_at (qy d) (int i)))))))
       \<and> pitch (quaternionToEuler (qw d) (qx d) (qy d) (qz d)) ! i =
           to_degrees (Math_asin (spec_clamp
             (js_mul (Fin 2) (js_sub (js_mul (js_at (qw d) (int i)) (js_at (qy d) (int i)))
                                     (js_mul (js_at (qz d) (int i)) (js_at (qx d) (int i)))))
             (Fin (- 1)) (Fin 1)))
       \<and> (js_ge (Math_abs
             (js_mul (Fin 2) (js_sub (js_mul (js_at (qw d) (int i)) (js_at (qy d) (int i)))
                                     (js_mul (js_at (qz d) (int i)) (js_at (qx d) (int i))))))
             (Fin 1) \<longrightarrow>
           pitch (quaternionToEuler (qw d) (qx d) (qy d) (qz d)) ! i =
             to_degrees (js_div (js_mul (Math_sign
               (js_mul (Fin 2) (js_sub (js_mul (js_at (qw d) (int i)) (js_at (qy d) (int i)))
                                       (js_mul (js_at (qz d) (int i)) (js_at (qx d) (int i))))))
               Math_PI) (Fin 2)))
       \<and> yaw (quaternionToEuler (qw d) (qx d) (qy d) (qz d)) ! i =
           to_degrees (Math_atan2
             (js_mul (Fin 2) (js_add (js_mul (js_at (qw d) (int i)) (js_at (qz d) (int i)))
                                     (js_mul (js_at (qx d) (int i)) (js_at (qy d) (int i)))))
             (js_sub (Fin 1) (js_mul (Fin 2)
                (js_add (js_mul (js_at (qy d) (int i)) (js_at (qy d) (int i)))
                        (js_mul (js_at (qz d) (int i)) (js_at (qz d) (int i)))))))"
  using assms
  by (simp add: quaternionToEuler_eq spec_roll_def spec_pitch_def spec_yaw_def spec_sinp_def
      pitch_at_pole)

theorem quaternionToEuler_formulas_witness:
  "0 < length (qw pole_store)
   \<and> roll (quaternionToEuler (qw pole_store) (qx pole_store) (qy pole_store) (qz pole_store)) ! 0 = Fin 180
   \<and> pitch (quaternionToEuler (qw pole_store) (qx pole_store) (qy pole_store) (qz pole_store)) ! 0 = Fin 90
   \<and> yaw (quaternionToEuler (qw pole_store) (qx pole_store) (qy pole_store) (qz pole_store)) ! 0 = Fin 180"
proof -
  have h: "0 < length (qw pole_store)"
    by (simp add: pole_store_def one_sample_def)
  show ?thesis
    using h quaternionToEuler_formulas [OF h]
    by (simp add: pole_store_def one_sample_def js_at_def to_degrees_def spec_clamp_def
        Math_max2_def Math_min2_def js_sub_def atan2_real_def Math_PI_def js_ge_def js_le_def)
qed

section \<open>Properties of \<^verbatim>\<open>computePositionError\<close>\<close>

declare computePositionError_loop.simps [simp del]

text \<open>The errors of one index, as the loop body computes them.\<close>

lemma computePositionError_loop_eq:
  "computePositionError_loop i n r t errs =
     \<lparr> north = north errs @ map (\<lambda>k. js_mul (js_sub (js_at (lat t) (int k)) (js_at (lat r) (int k))) R_EARTH) [i ..< n],
       east = east errs @ map (\<lambda>k. js_mul (js_mul (js_sub (js_at (lon t) (int k)) (js_at (lon r) (int k))) R_EARTH)
                                            (Math_cos (js_at (lat r) (int k)))) [i ..< n],
       down = down errs @ map (\<lambda>k. js_sub (js_at (alt t) (int k)) (js_at (alt r) (int k))) [i ..< n],
       horizontal = horizontal errs @ map (\<lambda>k.
          Math_sqrt (js_add
            (js_mul (js_mul (js_sub (js_at (lat t) (int k)) (js_at (lat r) (int k))) R_EARTH)
                    (js_mul (js_sub (js_at (lat t) (int k)) (js_at (lat r) (int k))) R_EARTH))
            (js_mul (js_mul (js_mul (js_sub (js_at (lon t) (int k)) (js_at (lon r) (int k))) R_EARTH)
                            (Math_cos (js_at (lat r) (int k))))
                    (js_mul (js_mul (js_sub (js_at (lon t) (int k)) (js_at (lon r) (int k))) R_EARTH)
                            (Math_cos (js_at (lat r) (int k))))))) [i ..< n],
       error3d = error3d errs @ map (\<lambda>k.
          Math_sqrt (js_add (js_add
            (js_mul (js_mul (js_sub (js_at (lat t) (int k)) (js_at (lat r) (int k))) R_EARTH)
                    (js_mul (js_sub (js_at (lat t) (int k)) (js_at (lat r) (int k))) R_EARTH))
            (js_mul (js_mul (js_mul (js_sub (js_at (lon t) (int k)) (js_at (lon r) (int k))) R_EARTH)
                            (Math_cos (js_at (lat r) (int k))))
                    (js_mul (js_mul (js_sub (js_at (lon t) (int k)) (js_at (lon r) (int k))) R_EARTH)
                            (Math_cos (js_at (lat r) (int k))))))
            (js_mul (js_sub (js_at (alt t) (int k)) (js_at (alt r) (int k)))
                    (js_sub (js_at (alt t) (int k)) (js_at (alt r) (int k)))))) [i ..< n] \<rparr>"
proof (induction i n r t errs rule: computePositionError_loop.induct)
  case (1 i n r t errs)
  show ?case
  proof (cases "i < n")
    case True
    then have up: "[i ..< n] = i # [Suc i ..< n]"
      by (simp add: upt_conv_Cons)
    note IH = 1 [OF True refl refl refl refl refl]
    show ?thesis
      apply (subst computePositionError_loop.simps)
      apply (simp only: True if_True Let_def)
      apply (subst IH)
      apply (simp add: up)
      done
  next
    case False
    then show ?thesis
      by (subst computePositionError_loop.simps) simp
  qed
qed

text \<open>
  What holds of the claim on the code: there are \<open>min N_ref N_test\<close> entries, and the
  entry at \<open>i\<close> is computed from sample \<open>i\<close> of the two stores alone, the east error with
  the cosine of the reference sample's latitude. The entry of \<^verbatim>\<open>errors.down\<close> is the
  altitude difference itself.
\<close>

lemma computePositionError_entries:
  assumes "i < min (length (lat r)) (length (lat t))"
  shows "length (north (computePositionError r t)) = min (length (lat r)) (length (lat t))"
    and "length (east (computePositionError r t)) = min (length (lat r)) (length (lat t))"
    and "length (down (computePositionError r t)) = min (length (lat r)) (length (lat t))"
    and "length (horizontal (computePositionError r t)) = min (length (lat r)) (length (lat t))"
    and "length (error3d (computePositionError r t)) = min (length (lat r)) (length (lat t))"
    and "north (computePositionError r t) ! i = js_mul (js_sub (lat t ! i) (lat r ! i)) R_EARTH"
    and "east (computePositionError r t) ! i =
           js_mul (js_mul (js_sub (js_at (lon t) (int i)) (js_at (lon r) (int i))) R_EARTH)
                  (Math_cos (lat r ! i))"
    and "down (computePositionError r t) ! i =
           js_sub (js_at (alt t) (int i)) (js_at (alt r) (int i))"
    and "horizontal (computePositionError r t) ! i =
           Math_sqrt (js_add (js_pow2 (north (computePositionError r t) ! i))
                             (js_pow2 (east (computePositionError r t) ! i)))"
    and "error3d (computePositionError r t) ! i =
           Math_sqrt (js_add (js_add (js_pow2 (north (computePositionError r t) ! i))
                                     (js_pow2 (east (computePositionError r t) ! i)))
                             (js_pow2 (down (computePositionError r t) ! i)))"
  using assms
  by (simp_all add: computePositionError_def computePositionError_loop_eq Let_def js_at_def js_pow2_def)

text \<open>
  C2. \<^verbatim>\<open>computePositionError\<close> is to give the down error of the flat-Earth formula,
  \<open>-(alt_test - alt_ref)\<close>. On a reference sample at altitude 100 and a test sample at
  altitude 105 the code stores \<open>5\<close> in \<^verbatim>\<open>errors.down\<close>, the series the error chart
  shows as "Down Error", where the formula gives \<open>-5\<close>.
\<close>

theorem computePositionError_down_sign:
  "down (computePositionError (one_sample (Fin 0) (Fin 100)) (one_sample (Fin 0) (Fin 105))) = [Fin 5]
   \<and> spec_down_err (Fin 105) (Fin 100) = Fin (- 5)"
  by (simp add: computePositionError_def computePositionError_loop_eq one_sample_def js_at_def
      js_sub_def spec_down_err_def)

section \<open>Properties of the playback\<close>

text \<open>
  C3. While playing on a non-empty test store, a tick of \<^verbatim>\<open>animate\<close> moves the index
  forward by 5 whatever the frame's time stamp, clamped at \<open>N_test - 1\<close>; when the index
  reaches \<open>N_test - 1\<close> the playback is paused, and otherwise it goes on playing.
\<close>

theorem animate_tick:
  assumes "isPlaying v" and "testData v = Some td" and "0 < length (time td)"
  shows "index (animate t now v) = min (int (length (time td)) - 1) (index v + 5)
       \<and> index (animate t now v) = index (animate t' now' v)
       \<and> (index v + 5 < int (length (time td)) - 1 \<longrightarrow>
            index (animate t now v) = index v + 5 \<and> isPlaying (animate t now v))
       \<and> (index (animate t now v) = int (length (time td)) - 1 \<longrightarrow>
            \<not> isPlaying (animate t now v))"
  using assms by (auto simp: animate_def togglePlay_def Let_def)

theorem animate_tick_witness:
  "index (animate 16 16 (viewer_at (Some (steady_store 12)) True 3)) = 8
   \<and> isPlaying (animate 16 16 (viewer_at (Some (steady_store 12)) True 3))
   \<and> index (animate 16 16 (viewer_at (Some (steady_store 12)) True 8)) = 11
   \<and> \<not> isPlaying (animate 16 16 (viewer_at (Some (steady_store 12)) True 8))"
proof -
  have len: "0 < length (time (steady_store 12))"
    by (simp add: steady_store_def)
  have a: "isPlaying (viewer_at (Some (steady_store 12)) True 3)"
    and b: "testData (viewer_at (Some (steady_store 12)) True 3) = Some (steady_store 12)"
    and c: "isPlaying (viewer_at (Some (steady_store 12)) True 8)"
    and d: "testData (viewer_at (Some (steady_store 12)) True 8) = Some (steady_store 12)"
    by (simp_all add: viewer_at_def)
  show ?thesis
    using animate_tick [OF a b len, where t = 16 and now = 16]
      animate_tick [OF c d len, where t = 16 and now = 16]
    by (simp add: viewer_at_def steady_store_def)
qed

text \<open>
  C4, as the claim states it: on an empty test store \<^verbatim>\<open>togglePlay\<close> would change
  nothing. The guard of the code is \<^verbatim>\<open>if (!testData) return\<close>, and an empty store is
  an object, so the call does start the playback.
\<close>

theorem togglePlay_empty_store_plays:
  "length (time empty_trajectory) = 0
   \<and> \<not> isPlaying (viewer_at (Some empty_trajectory) False 0)
   \<and> isPlaying (togglePlay 0 (viewer_at (Some empty_trajectory) False 0))
   \<and> togglePlay 0 (viewer_at (Some empty_trajectory) False 0)
       \<noteq> viewer_at (Some empty_trajectory) False 0"
proof -
  have "isPlaying (togglePlay 0 (viewer_at (Some empty_trajectory) False 0))"
    by (simp add: togglePlay_def viewer_at_def Let_def)
  moreover have "\<not> isPlaying (viewer_at (Some empty_trajectory) False 0)"
    by (simp add: viewer_at_def)
  ultimately show ?thesis
    by (auto simp: empty_trajectory_def)
qed

text \<open>
  C4, amended. \<^verbatim>\<open>togglePlay\<close> changes nothing when no test store is loaded. With a
  store loaded, of any length, a call in the paused state starts the playback, after
  setting the index to 0 if it is at or beyond the last sample; a call in the playing
  state pauses and leaves the index; so a second call undoes the first.
\<close>

theorem togglePlay_transitions:
  "(testData v = None \<longrightarrow> togglePlay now v = v)
   \<and> (testData v = Some td \<and> \<not> isPlaying v \<longrightarrow>
        isPlaying (togglePlay now v)
        \<and> index (togglePlay now v) = (if index v \<ge> int (length (time td)) - 1 then 0 else index v)
        \<and> \<not> isPlaying (togglePlay now' (togglePlay now v)))
   \<and> (testData v = Some td \<and> isPlaying v \<longrightarrow>
        \<not> isPlaying (togglePlay now v) \<and> index (togglePlay now v) = index v)"
  by (auto simp: togglePlay_def Let_def)

theorem togglePlay_transitions_witness:
  "isPlaying (togglePlay 1 (viewer_at (Some (steady_store 12)) False 11))
   \<and> index (togglePlay 1 (viewer_at (Some (steady_store 12)) False 11)) = 0
   \<and> \<not> isPlaying (togglePlay 2 (togglePlay 1 (viewer_at (Some (steady_store 12)) False 11)))
   \<and> togglePlay 1 (viewer_at None False 0) = viewer_at None False 0
   \<and> \<not> isPlaying (togglePlay 1 (viewer_at (Some (steady_store 12)) True 4))
   \<and> index (togglePlay 1 (viewer_at (Some (steady_store 12)) True 4)) = 4"
  using togglePlay_transitions [where v = "viewer_at (Some (steady_store 12)) False 11"
        and td = "steady_store 12" and now = 1 and now' = 2]
    togglePlay_transitions [where v = "viewer_at None False 0" and now = 1]
    togglePlay_transitions [where v = "viewer_at (Some (steady_store 12)) True 4"
        and td = "steady_store 12" and now = 1]
  by (simp add: viewer_at_def steady_store_def)

section \<open>Properties of the chase camera\<close>

lemma clamp_between:
  fixes lo hi v :: real
  assumes "lo \<le> hi"
  shows "lo \<le> max lo (min hi v)" and "max lo (min hi v) \<le> hi"
  using assms by auto

lemma rotate_to_bounds:
  assumes "chase_bounds c"
  shows "chase_bounds (rotate_to a b c)"
proof -
  define e where "e = max (- pi / 2 + 1 / 10) (min (pi / 2 - 1 / 10) (elevation c + (b - lastMouseY c) * (1 / 100)))"
  have le: "- pi / 2 + 1 / 10 \<le> pi / 2 - 1 / 10"
    using pi_ge_two by simp
  have "- pi / 2 + 1 / 10 \<le> e" and "e \<le> pi / 2 - 1 / 10"
    unfolding e_def by (rule clamp_between [OF le])+
  then have "- (pi / 2) < e" and "e < pi / 2"
    by simp_all
  moreover have "elevation (rotate_to a b c) = e" and "distance (rotate_to a b c) = distance c"
    by (simp_all add: rotate_to_def Let_def e_def)
  ultimately show ?thesis
    using assms by (simp add: chase_bounds_def)
qed

lemma chase_handle_bounds: "chase_bounds c \<Longrightarrow> chase_bounds (chase_handle c ev)"
proof (cases ev)
  case (MouseMove a b)
  assume "chase_bounds c"
  with MouseMove show ?thesis
    by (simp add: rotate_to_bounds)
next
  case (TouchMove ts)
  assume inv: "chase_bounds c"
  show ?thesis
  proof (cases "isDragging c")
    case True
    with inv TouchMove rotate_to_bounds [OF inv] show ?thesis
      by (auto simp: chase_bounds_def Let_def split: list.splits)
  next
    case False
    with inv TouchMove show ?thesis
      by (auto simp: chase_bounds_def Let_def split: list.splits)
  qed
qed (auto simp: chase_bounds_def Let_def split: list.splits)

lemma chase_fold_bounds: "chase_bounds c \<Longrightarrow> chase_bounds (foldl chase_handle c evs)"
  by (induction evs arbitrary: c) (simp_all add: chase_handle_bounds)

lemma chase_initial_bounds: "chase_bounds chase_initial"
  using pi_ge_two by (simp add: chase_bounds_def chase_initial_def)

text \<open>
  C5. After every sequence of mouse, wheel and touch events applied to the chase camera
  from its initial state (distance 30, elevation 0.3), the elevation is strictly between
  \<open>-\<pi>/2\<close> and \<open>\<pi>/2\<close> and the distance is in \<open>[5, 200]\<close>.
\<close>

theorem chase_camera_bounds:
  "distance chase_initial = 30 \<and> elevation chase_initial = 3 / 10
   \<and> - (pi / 2) < elevation (chase_run evs) \<and> elevation (chase_run evs) < pi / 2
   \<and> 5 \<le> distance (chase_run evs) \<and> distance (chase_run evs) \<le> 200"
proof -
  have "chase_bounds (chase_run evs)"
    unfolding chase_run_def by (rule chase_fold_bounds [OF chase_initial_bounds])
  then show ?thesis
    by (simp add: chase_bounds_def chase_initial_def)
qed

section \<open>Properties of the zoom history\<close>

lemma axis_range_eta:
  "\<lparr> range_min = range_min r, range_max = range_max r \<rparr> = (r :: axis_range)"
  by (rule axis_range.equality) simp_all

lemma snapshot_eta:
  "\<lparr> zx = \<lparr> range_min = range_min (zx s), range_max = range_max (zx s) \<rparr>,
     zy = \<lparr> range_min = range_min (zy s), range_max = range_max (zy s) \<rparr> \<rparr> = (s :: zoom_state)"
  by (rule zoom_state.equality) (simp_all add: axis_range_eta)

lemma saveZoomState_history:
  "zoomHistory (saveZoomState name ch app) =
     (zoomHistory app)(name \<mapsto>
        (let h1 = (case zoomHistory app name of None \<Rightarrow> [] | Some h \<Rightarrow> h) @ [scales ch]
         in if length h1 > 20 then tl h1 else h1))"
  by (simp add: saveZoomState_def Let_def snapshot_eta)

lemma saveZoomState_bounded:
  assumes "\<And>n h. zoomHistory app n = Some h \<Longrightarrow> length h \<le> 20"
    and "zoomHistory (saveZoomState name ch app) n = Some h"
  shows "length h \<le> 20"
proof (cases "n = name")
  case True
  show ?thesis
  proof (cases "zoomHistory app name")
    case None
    with True assms(2) show ?thesis
      by (auto simp: saveZoomState_history Let_def split: if_splits)
  next
    case (Some h0)
    with True assms(2) assms(1) [of name h0] show ?thesis
      by (auto simp: saveZoomState_history Let_def split: if_splits)
  qed
next
  case False
  with assms show ?thesis
    by (simp add: saveZoomState_history)
qed

lemma undoZoom_history:
  "zoomHistory (snd (undoZoom name app)) n = Some h \<Longrightarrow>
   zoomHistory app n = Some h \<or> (\<exists>h'. zoomHistory app n = Some h' \<and> h = butlast h')"
  by (auto simp: undoZoom_def put_chart_def Let_def split: option.splits if_splits)

lemma zoom_step_bounded:
  assumes "\<And>n h. zoomHistory app n = Some h \<Longrightarrow> length h \<le> 20"
    and "zoomHistory (zoom_step app op) n = Some h"
  shows "length h \<le> 20"
proof (cases op)
  case (ZoomStart name)
  with assms(2) show ?thesis
    using assms(1) saveZoomState_bounded [OF assms(1)]
    by (auto simp: onZoomStart_def split: option.splits if_splits)
next
  case (Undo name)
  with assms(2) have "zoomHistory (snd (undoZoom name app)) n = Some h"
    by simp
  from undoZoom_history [OF this] show ?thesis
  proof
    assume "zoomHistory app n = Some h"
    then show ?thesis by (rule assms(1))
  next
    assume "\<exists>h'. zoomHistory app n = Some h' \<and> h = butlast h'"
    then obtain h' where "zoomHistory app n = Some h'" and "h = butlast h'"
      by blast
    with assms(1) [of n h'] show ?thesis
      by simp
  qed
next
  case (Reset name)
  with assms show ?thesis
    by (auto simp: resetZoom_click_def split: option.splits if_splits)
next
  case ModalReset
  with assms show ?thesis
    by (auto simp: modal_resetZoom_click_def split: option.splits if_splits)
qed

lemma zoom_fold_bounded:
  assumes "\<And>n h. zoomHistory app n = Some h \<Longrightarrow> length h \<le> 20"
    and "zoomHistory (foldl zoom_step app ops) n = Some h"
  shows "length h \<le> 20"
  using assms
proof (induction ops arbitrary: app)
  case Nil
  then show ?case by simp
next
  case (Cons op ops)
  show ?case
  proof (rule Cons.IH)
    show "zoomHistory (foldl zoom_step (zoom_step app op) ops) n = Some h"
      using Cons.prems(2) by simp
    show "length h' \<le> 20" if "zoomHistory (zoom_step app op) n' = Some h'" for n' h'
      using Cons.prems(1) that by (rule zoom_step_bounded)
  qed
qed

lemma zoomHistory_initial_empty: "zoomHistory_initial n = Some h \<Longrightarrow> h = []"
  by (auto simp: zoomHistory_initial_def split: if_splits)

text \<open>
  C6. For every named view and every sequence of zoom-start, undo and reset operations
  from the initial state, the view's zoom history holds at most 20 snapshots. A push
  onto a history of 20 drops the oldest snapshot and keeps the new one as the last; a
  push onto a shorter history only appends.
\<close>

theorem zoom_history_capacity:
  "(zoomHistory (zoom_run (zoom_initial cs mc) ops) name = Some h \<longrightarrow> length h \<le> 20)
   \<and> (zoomHistory app name = Some h' \<and> length h' = 20 \<longrightarrow>
        zoomHistory (saveZoomState name ch app) name = Some (tl h' @ [scales ch]))
   \<and> (zoomHistory app name = Some h' \<and> length h' < 20 \<longrightarrow>
        zoomHistory (saveZoomState name ch app) name = Some (h' @ [scales ch]))"
proof (intro conjI impI)
  assume run: "zoomHistory (zoom_run (zoom_initial cs mc) ops) name = Some h"
  have init: "length k \<le> 20" if "zoomHistory (zoom_initial cs mc) n = Some k" for n k
    using that zoomHistory_initial_empty [of n k] by (simp add: zoom_initial_def)
  from init run show "length h \<le> 20"
    unfolding zoom_run_def by (rule zoom_fold_bounded)
next
  assume "zoomHistory app name = Some h' \<and> length h' = 20"
  then show "zoomHistory (saveZoomState name ch app) name = Some (tl h' @ [scales ch])"
    by (cases h') (simp_all add: saveZoomState_history)
next
  assume "zoomHistory app name = Some h' \<and> length h' < 20"
  then show "zoomHistory (saveZoomState name ch app) name = Some (h' @ [scales ch])"
    by (simp add: saveZoomState_history)
qed

theorem zoom_history_capacity_witness:
  "zoomHistory (zoom_run (zoom_initial attitude_only None)
      [ZoomStart ''attitude'', ZoomStart ''attitude'', Undo ''attitude'']) ''attitude''
     = Some [full_view]
   \<and> length [full_view] \<le> 20
   \<and> zoomHistory full_history ''attitude'' = Some (replicate 20 full_view)
   \<and> zoomHistory (saveZoomState ''attitude'' \<lparr> scales = zoomed_view, original = full_view \<rparr>
         full_history) ''attitude''
     = Some (replicate 19 full_view @ [zoomed_view])"
proof -
  have run: "zoomHistory (zoom_run (zoom_initial attitude_only None)
      [ZoomStart ''attitude'', ZoomStart ''attitude'', Undo ''attitude'']) ''attitude''
     = Some [full_view]"
    by (simp add: zoom_run_def zoom_initial_def attitude_only_def zoomHistory_initial_def
        onZoomStart_def saveZoomState_def undoZoom_def chart_of_def put_chart_def Let_def
        snapshot_eta)
  have full: "zoomHistory full_history ''attitude'' = Some (replicate 20 full_view)
      \<and> length (replicate 20 full_view) = 20"
    by (simp add: full_history_def)
  have push: "tl (replicate 20 full_view) = replicate 19 full_view"
    by (simp add: tl_replicate)
  show ?thesis
    using run full push
      zoom_history_capacity [where cs = attitude_only and mc = None
        and ops = "[ZoomStart ''attitude'', ZoomStart ''attitude'', Undo ''attitude'']"
        and name = "''attitude''" and h = "[full_view]" and app = full_history
        and h' = "replicate 20 full_view"
        and ch = "\<lparr> scales = zoomed_view, original = full_view \<rparr>"]
    by simp
qed

lemma resetZoom_click_then_undo:
  "name \<noteq> ''modal'' \<Longrightarrow>
   undoZoom name (resetZoom_click name app) = (False, resetZoom_click name app)"
  by (simp add: undoZoom_def resetZoom_click_def chart_of_def split: option.splits)

lemma modal_resetZoom_click_then_undo:
  "undoZoom ''modal'' (modal_resetZoom_click app) = (False, modal_resetZoom_click app)"
  by (simp add: undoZoom_def modal_resetZoom_click_def chart_of_def split: option.splits)

text \<open>
  C7. \<^verbatim>\<open>undoZoom\<close> on a view whose chart exists and whose history is not empty returns
  true, removes the last snapshot of that history and makes it the ranges of the chart's
  two scales. On a history that is empty or missing it returns false and changes
  nothing; so it does right after a reset of the same view, which clears the history.
\<close>

theorem undoZoom_pops_and_applies:
  "(chart_of app name = Some ch \<and> zoomHistory app name = Some h \<and> h \<noteq> [] \<longrightarrow>
      fst (undoZoom name app)
      \<and> zoomHistory (snd (undoZoom name app)) name = Some (butlast h)
      \<and> map_option scales (chart_of (snd (undoZoom name app)) name) = Some (last h))
   \<and> (zoomHistory app name = Some [] \<or> zoomHistory app name = None \<longrightarrow>
      undoZoom name app = (False, app))
   \<and> (name \<noteq> ''modal'' \<longrightarrow>
      undoZoom name (resetZoom_click name app) = (False, resetZoom_click name app))
   \<and> undoZoom ''modal'' (modal_resetZoom_click app) = (False, modal_resetZoom_click app)"
proof (intro conjI impI)
  assume a: "chart_of app name = Some ch \<and> zoomHistory app name = Some h \<and> h \<noteq> []"
  then show "fst (undoZoom name app)"
    by (simp add: undoZoom_def Let_def)
  from a show "zoomHistory (snd (undoZoom name app)) name = Some (butlast h)"
    by (simp add: undoZoom_def put_chart_def Let_def)
  from a show "map_option scales (chart_of (snd (undoZoom name app)) name) = Some (last h)"
    by (simp add: undoZoom_def put_chart_def chart_of_def Let_def axis_range_eta
        zoom_state.equality)
next
  assume "zoomHistory app name = Some [] \<or> zoomHistory app name = None"
  then show "undoZoom name app = (False, app)"
    by (auto simp: undoZoom_def split: option.splits)
next
  assume "name \<noteq> ''modal''"
  then show "undoZoom name (resetZoom_click name app) = (False, resetZoom_click name app)"
    by (rule resetZoom_click_then_undo)
next
  show "undoZoom ''modal'' (modal_resetZoom_click app) = (False, modal_resetZoom_click app)"
    by (rule modal_resetZoom_click_then_undo)
qed

theorem undoZoom_pops_and_applies_witness:
  "fst (undoZoom ''attitude'' zoomed_twice)
   \<and> zoomHistory (snd (undoZoom ''attitude'' zoomed_twice)) ''attitude'' = Some [full_view]
   \<and> map_option scales (chart_of (snd (undoZoom ''attitude'' zoomed_twice)) ''attitude'')
       = Some zoomed_view
   \<and> undoZoom ''velocity'' zoomed_twice = (False, zoomed_twice)
   \<and> \<not> fst (undoZoom ''attitude'' (resetZoom_click ''attitude'' zoomed_twice))"
proof -
  have a: "chart_of zoomed_twice ''attitude'' = Some \<lparr> scales = full_view, original = full_view \<rparr>
      \<and> zoomHistory zoomed_twice ''attitude'' = Some [full_view, zoomed_view]
      \<and> [full_view, zoomed_view] \<noteq> []"
    by (simp add: zoomed_twice_def chart_of_def)
  have b: "zoomHistory zoomed_twice ''velocity'' = Some []"
    by (simp add: zoomed_twice_def zoomHistory_initial_def)
  show ?thesis
    using a b
      undoZoom_pops_and_applies [where app = zoomed_twice and name = "''attitude''"
        and ch = "\<lparr> scales = full_view, original = full_view \<rparr>"
        and h = "[full_view, zoomed_view]"]
      undoZoom_pops_and_applies [where app = zoomed_twice and name = "''velocity''"]
    by simp
qed

section \<open>Properties of \<^verbatim>\<open>parseTrajectoryFile\<close>\<close>

lemma parse_line_short: "length (tokens line) < 17 \<Longrightarrow> parse_line pf d line = d"
  by (simp add: parse_line_def)

lemma parse_line_row:
  "17 \<le> length (tokens line) \<Longrightarrow>
   parse_line pf d line =
     d \<lparr> time := time d @ [pf (tokens line ! 0)],
         lat := lat d @ [pf (tokens line ! 1)],
         lon := lon d @ [pf (tokens line ! 2)],
         alt := alt d @ [pf (tokens line ! 3)],
         vn := vn d @ [pf (tokens line ! 4)],
         ve := ve d @ [pf (tokens line ! 5)],
         vd := vd d @ [pf (tokens line ! 6)],
         qw := qw d @ [pf (tokens line ! 7)],
         qx := qx d @ [pf (tokens line ! 8)],
         qy := qy d @ [pf (tokens line ! 9)],
         qz := qz d @ [pf (tokens line ! 10)],
         bx := bx d @ [pf (tokens line ! 11)],
         by' := by' d @ [pf (tokens line ! 12)],
         bz := bz d @ [pf (tokens line ! 13)],
         gx := gx d @ [pf (tokens line ! 14)],
         gy := gy d @ [pf (tokens line ! 15)],
         gz := gz d @ [pf (tokens line ! 16)] \<rparr>"
proof -
  assume len: "17 \<le> length (tokens line)"
  then have "0 < length (tokens line)"
    by linarith
  with len show ?thesis
    by (simp add: parse_line_def Let_def)
qed

lemma parse_fold:
  "foldl (parse_line pf) d ls =
     d \<lparr> time := time d @ map (\<lambda>r. r ! 0) (rows_of_lines pf ls),
         lat := lat d @ map (\<lambda>r. r ! 1) (rows_of_lines pf ls),
         lon := lon d @ map (\<lambda>r. r ! 2) (rows_of_lines pf ls),
         alt := alt d @ map (\<lambda>r. r ! 3) (rows_of_lines pf ls),
         vn := vn d @ map (\<lambda>r. r ! 4) (rows_of_lines pf ls),
         ve := ve d @ map (\<lambda>r. r ! 5) (rows_of_lines pf ls),
         vd := vd d @ map (\<lambda>r. r ! 6) (rows_of_lines pf ls),
         qw := qw d @ map (\<lambda>r. r ! 7) (rows_of_lines pf ls),
         qx := qx d @ map (\<lambda>r. r ! 8) (rows_of_lines pf ls),
         qy := qy d @ map (\<lambda>r. r ! 9) (rows_of_lines pf ls),
         qz := qz d @ map (\<lambda>r. r ! 10) (rows_of_lines pf ls),
         bx := bx d @ map (\<lambda>r. r ! 11) (rows_of_lines pf ls),
         by' := by' d @ map (\<lambda>r. r ! 12) (rows_of_lines pf ls),
         bz := bz d @ map (\<lambda>r. r ! 13) (rows_of_lines pf ls),
         gx := gx d @ map (\<lambda>r. r ! 14) (rows_of_lines pf ls),
         gy := gy d @ map (\<lambda>r. r ! 15) (rows_of_lines pf ls),
         gz := gz d @ map (\<lambda>r. r ! 16) (rows_of_lines pf ls) \<rparr>"
proof (induction ls arbitrary: d)
  case Nil
  show ?case by (simp add: rows_of_lines_def)
next
  case (Cons l ls)
  show ?case
  proof (cases "17 \<le> length (tokens l)")
    case True
    then show ?thesis
      by (simp add: Cons.IH parse_line_row rows_of_lines_def)
  next
    case False
    then show ?thesis
      by (simp add: Cons.IH parse_line_short rows_of_lines_def)
  qed
qed

lemma upt_17: "[0 ..< 17] = [0, 1, 2, 3, 4, 5, 6, 7, 8, 9, 10, 11, 12, 13, 14, 15, 16]"
  by (simp add: upt_rec)

lemma parseTrajectoryFile_channels:
  "channels (parseTrajectoryFile pf content) =
     map (\<lambda>k. map (\<lambda>r. r ! k) (rows pf content)) [0 ..< 17]"
  by (simp add: parseTrajectoryFile_def parse_fold rows_def channels_def empty_trajectory_def
      upt_17)

lemma parse_line_channels:
  "17 \<le> length (tokens line) \<Longrightarrow>
   channels (parse_line pf d line) = map (\<lambda>k. channels d ! k @ [pf (tokens line ! k)]) [0 ..< 17]"
  by (simp add: parse_line_row channels_def upt_17)

text \<open>
  C10. \<^verbatim>\<open>parseTrajectoryFile\<close> looks at the number of tokens of a line and at nothing
  else. Each of the 17 channels of the store is the column of that index of the rows of
  the file, a row being \<^verbatim>\<open>parseFloat\<close> of the first 17 tokens of a data line with at
  least 17 tokens; so all channels have the number of rows as their length. A line with
  at least 17 tokens appends to channel \<open>k\<close> the value \<^verbatim>\<open>parseFloat\<close> gives on token \<open>k\<close>,
  whatever that value is (\<^verbatim>\<open>NaN\<close> for a token that is not a number); a line with fewer
  tokens changes nothing.
\<close>

theorem parseTrajectoryFile_by_token_count:
  "(k < 17 \<longrightarrow>
      channels (parseTrajectoryFile pf content) ! k = map (\<lambda>r. r ! k) (rows pf content)
      \<and> length (channels (parseTrajectoryFile pf content) ! k) = length (rows pf content))
   \<and> rows pf content =
       map (\<lambda>line. map pf (take 17 (tokens line)))
           (filter (\<lambda>line. 17 \<le> length (tokens line)) (dataLines content))
   \<and> (17 \<le> length (tokens line) \<and> k < 17 \<longrightarrow>
       channels (parse_line pf d line) ! k = channels d ! k @ [pf (tokens line ! k)])
   \<and> (length (tokens line) < 17 \<longrightarrow> parse_line pf d line = d)"
proof (intro conjI impI)
  assume k: "k < 17"
  then show "channels (parseTrajectoryFile pf content) ! k = map (\<lambda>r. r ! k) (rows pf content)"
    by (simp add: parseTrajectoryFile_channels del: upt_rec_numeral)
  then show "length (channels (parseTrajectoryFile pf content) ! k) = length (rows pf content)"
    by simp
next
  show "rows pf content =
       map (\<lambda>line. map pf (take 17 (tokens line)))
           (filter (\<lambda>line. 17 \<le> length (tokens line)) (dataLines content))"
    by (simp add: rows_def rows_of_lines_def)
next
  assume "17 \<le> length (tokens line) \<and> k < 17"
  then show "channels (parse_line pf d line) ! k = channels d ! k @ [pf (tokens line ! k)]"
    by (simp add: parse_line_channels del: upt_rec_numeral)
next
  assume "length (tokens line) < 17"
  then show "parse_line pf d line = d"
    by (rule parse_line_short)
qed

lemma sample_file_lines:
  "dataLines sample_file =
     [[49, 32, 50, 32, 51, 32, 52, 32, 53, 32, 54, 32, 55, 32, 56, 32, 57, 32,
       49, 32, 50, 32, 51, 32, 52, 32, 53, 32, 54, 32, 120, 32, 56],
      [49, 32, 50]]"
  by (simp add: dataLines_def sample_file_def trim_def is_space_def)

lemma sample_file_tokens:
  "tokens [49, 32, 50, 32, 51, 32, 52, 32, 53, 32, 54, 32, 55, 32, 56, 32, 57, 32,
           49, 32, 50, 32, 51, 32, 52, 32, 53, 32, 54, 32, 120, 32, 56] =
     [[49], [50], [51], [52], [53], [54], [55], [56], [57],
      [49], [50], [51], [52], [53], [54], [120], [56]]"
  "tokens [49, 32, 50] = [[49], [50]]"
  by (simp_all add: tokens_def trim_def is_space_def)

theorem parseTrajectoryFile_by_token_count_witness:
  "rows digit_or_NaN sample_file =
     [[Fin 1, Fin 2, Fin 3, Fin 4, Fin 5, Fin 6, Fin 7, Fin 8, Fin 9,
       Fin 1, Fin 2, Fin 3, Fin 4, Fin 5, Fin 6, NaN, Fin 8]]
   \<and> channels (parseTrajectoryFile digit_or_NaN sample_file) ! 15 = [NaN]
   \<and> length (channels (parseTrajectoryFile digit_or_NaN sample_file) ! 15) = 1
   \<and> length (tokens [49, 32, 50]) < 17
   \<and> parse_line digit_or_NaN empty_trajectory [49, 32, 50] = empty_trajectory"
proof -
  have r: "rows digit_or_NaN sample_file =
     [[Fin 1, Fin 2, Fin 3, Fin 4, Fin 5, Fin 6, Fin 7, Fin 8, Fin 9,
       Fin 1, Fin 2, Fin 3, Fin 4, Fin 5, Fin 6, NaN, Fin 8]]"
    by (simp add: rows_def rows_of_lines_def sample_file_lines sample_file_tokens digit_or_NaN_def)
  have short: "length (tokens [49, 32, 50]) < 17"
    by (simp add: sample_file_tokens)
  have k: "(15 :: nat) < 17"
    by simp
  show ?thesis
    using r short k
      parseTrajectoryFile_by_token_count [where k = 15 and pf = digit_or_NaN
        and content = sample_file and line = "[49, 32, 50]" and d = empty_trajectory]
    by simp
qed

section \<open>Properties of \<^verbatim>\<open>analyzeTrajectory\<close>\<close>

lemma arrayStats_within:
  "length arr \<le> L \<Longrightarrow>
   arrayStats L arr =
     Inr \<lparr> mean = js_div (foldl js_add (Fin 0) arr) (Fin (real (length arr))),
           min_v = foldl Math_min2 PInf arr,
           max_v = foldl Math_max2 NInf arr,
           std = Math_sqrt (js_div
                   (foldl (\<lambda>a b. js_add a (js_pow2 (js_sub b
                      (js_div (foldl js_add (Fin 0) arr) (Fin (real (length arr))))))) (Fin 0) arr)
                   (Fin (real (length arr)))) \<rparr>"
  by (simp add: arrayStats_def Math_min_def Math_max_def Let_def)

lemma arrayStats_beyond: "L < length arr \<Longrightarrow> arrayStats L arr = Inl RangeError"
  by (simp add: arrayStats_def Math_min_def Let_def)

text \<open>
  \<^verbatim>\<open>analyzeTrajectory\<close> returns when the three arrays it spreads are within the
  argument limit, and raises \<^verbatim>\<open>RangeError\<close> when one of them is beyond it.
\<close>

lemma analyzeTrajectory_returns:
  assumes "length (vn d) \<le> L" and "length (qw d) \<le> L" and "length (alt d) \<le> L"
  shows "\<exists>an. analyzeTrajectory L d = Inr an"
  using assms
  by (simp add: analyzeTrajectory_def arrayStats_within Math_min_def Math_max_def Let_def)

lemma analyzeTrajectory_raises:
  assumes "L < length (vn d) \<or> L < length (qw d) \<or> L < length (alt d)"
  shows "analyzeTrajectory L d = Inl RangeError"
  using assms
  by (auto simp: analyzeTrajectory_def arrayStats_def Math_min_def Math_max_def Let_def
      split: sum.splits)

lemma analyzeTrajectory_altReasonable:
  "analyzeTrajectory L d = Inr an \<Longrightarrow>
   altReasonable (checks an) =
     list_all (\<lambda>a. js_gt a (Fin (- 1000)) \<and> js_lt a (Fin 50000)) (alt d)"
  by (auto simp: analyzeTrajectory_def Let_def split: sum.splits)

lemma strictly_between:
  "(js_gt a (Fin lo) \<and> js_lt a (Fin hi)) = (\<exists>r. a = Fin r \<and> lo < r \<and> r < hi)"
  by (cases a) (simp_all add: js_gt_def)

lemma renderVerdict_altitude:
  "\<not> altReasonable (checks an) \<Longrightarrow>
   \<not> passed (renderVerdict fx an) \<and> ''Altitude out of bounds'' \<in> set (issues (renderVerdict fx an))"
  by (simp add: renderVerdict_def Let_def)

lemma one_sample_analysed:
  "\<exists>an. analyzeTrajectory args_100000 (one_sample t a) = Inr an"
  by (rule analyzeTrajectory_returns) (simp_all add: one_sample_def args_100000_def)

text \<open>
  C9, as the claim states it: the check would pass on every altitude of the closed
  interval. At an altitude of exactly 50000 m the code's test \<^verbatim>\<open>a < 50000\<close> fails.
\<close>

theorem altitude_check_fails_at_50000:
  "spec_altReasonable (one_sample (Fin 0) (Fin 50000))
   \<and> \<not> isl (analyzeTrajectory args_100000 (one_sample (Fin 0) (Fin 50000)))
   \<and> \<not> altReasonable (checks (projr (analyzeTrajectory args_100000 (one_sample (Fin 0) (Fin 50000)))))"
proof -
  obtain an where an: "analyzeTrajectory args_100000 (one_sample (Fin 0) (Fin 50000)) = Inr an"
    using one_sample_analysed by blast
  have "\<not> altReasonable (checks an)"
    by (simp add: analyzeTrajectory_altReasonable [OF an] one_sample_def js_gt_def)
  moreover have "spec_altReasonable (one_sample (Fin 0) (Fin 50000))"
    by (simp add: spec_altReasonable_def spec_alt_in_range_def one_sample_def js_ge_def js_le_def)
  ultimately show ?thesis
    using an by simp
qed

text \<open>
  C9, amended. On a store whose arrays are within the argument limit of the engine,
  \<^verbatim>\<open>analyzeTrajectory\<close> returns, and its altitude check passes exactly when every
  altitude is a number strictly between -1000 and 50000 m. Such a store with a sample at
  60000 m fails the check, the verdict is not passed and its issue list holds
  "Altitude out of bounds".
\<close>

theorem altitude_check_open_interval:
  assumes "length (vn d) \<le> L" and "length (qw d) \<le> L" and "length (alt d) \<le> L"
  shows "\<exists>an. analyzeTrajectory L d = Inr an
     \<and> altReasonable (checks an) =
         (\<forall>a \<in> set (alt d). \<exists>r. a = Fin r \<and> - 1000 < r \<and> r < 50000)
     \<and> (Fin 60000 \<in> set (alt d) \<longrightarrow>
          \<not> altReasonable (checks an)
          \<and> \<not> passed (renderVerdict fx an)
          \<and> ''Altitude out of bounds'' \<in> set (issues (renderVerdict fx an)))"
proof -
  obtain an where an: "analyzeTrajectory L d = Inr an"
    using analyzeTrajectory_returns [OF assms] by blast
  have iff: "altReasonable (checks an) =
      (\<forall>a \<in> set (alt d). \<exists>r. a = Fin r \<and> - 1000 < r \<and> r < 50000)"
    by (simp add: analyzeTrajectory_altReasonable [OF an] strictly_between list_all_iff)
  have "\<not> altReasonable (checks an)
      \<and> \<not> passed (renderVerdict fx an)
      \<and> ''Altitude out of bounds'' \<in> set (issues (renderVerdict fx an))"
    if "Fin 60000 \<in> set (alt d)"
  proof -
    from that iff have "\<not> altReasonable (checks an)"
      by auto
    with renderVerdict_altitude [of an fx] show ?thesis
      by simp
  qed
  with an iff show ?thesis
    by blast
qed

theorem altitude_check_open_interval_witness:
  "length (vn (one_sample (Fin 0) (Fin 60000))) \<le> args_100000
   \<and> length (qw (one_sample (Fin 0) (Fin 60000))) \<le> args_100000
   \<and> length (alt (one_sample (Fin 0) (Fin 60000))) \<le> args_100000
   \<and> Fin 60000 \<in> set (alt (one_sample (Fin 0) (Fin 60000)))
   \<and> \<not> isl (analyzeTrajectory args_100000 (one_sample (Fin 0) (Fin 60000)))
   \<and> \<not> altReasonable (checks (projr (analyzeTrajectory args_100000 (one_sample (Fin 0) (Fin 60000)))))
   \<and> ''Altitude out of bounds''
        \<in> set (issues (renderVerdict (\<lambda>v. ''0.0'')
              (projr (analyzeTrajectory args_100000 (one_sample (Fin 0) (Fin 60000))))))
   \<and> \<not> isl (analyzeTrajectory args_100000 (one_sample (Fin 0) (Fin 100)))
   \<and> altReasonable (checks (projr (analyzeTrajectory args_100000 (one_sample (Fin 0) (Fin 100)))))"
proof -
  have len: "length (vn (one_sample (Fin 0) a)) \<le> args_100000"
      "length (qw (one_sample (Fin 0) a)) \<le> args_100000"
      "length (alt (one_sample (Fin 0) a)) \<le> args_100000" for a
    by (simp_all add: one_sample_def args_100000_def)
  have a: "Fin 60000 \<in> set (alt (one_sample (Fin 0) (Fin 60000)))"
    and b: "alt (one_sample (Fin 0) (Fin 100)) = [Fin 100]"
    by (simp_all add: one_sample_def)
  from altitude_check_open_interval [OF len, where fx = "\<lambda>v. ''0.0''"] a
  obtain hi where hi: "analyzeTrajectory args_100000 (one_sample (Fin 0) (Fin 60000)) = Inr hi"
    and "\<not> altReasonable (checks hi)"
    and "''Altitude out of bounds'' \<in> set (issues (renderVerdict (\<lambda>v. ''0.0'') hi))"
    by blast
  moreover from altitude_check_open_interval [OF len, of "Fin 100"] b
  obtain lo where lo: "analyzeTrajectory args_100000 (one_sample (Fin 0) (Fin 100)) = Inr lo"
    and "altReasonable (checks lo)"
    by auto
  ultimately show ?thesis
    using a len by simp
qed

lemma arrayStats_empty:
  "arrayStats L [] = Inr \<lparr> mean = NaN, min_v = PInf, max_v = NInf, std = NaN \<rparr>"
  by (simp add: arrayStats_within inf_signed_def)

lemma analyzeTrajectory_empty:
  "\<exists>an. analyzeTrajectory L empty_trajectory = Inr an
     \<and> samples an = 0
     \<and> duration an = NaN
     \<and> drift an = \<lparr> d_north = NaN, d_east = NaN, d_alt = NaN, d_total = NaN \<rparr>
     \<and> speed an = \<lparr> mean = NaN, min_v = PInf, max_v = NInf, std = NaN \<rparr>
     \<and> maxSpeed (checks an) = NInf
     \<and> speedReasonable (checks an)"
  by (simp add: analyzeTrajectory_def arrayStats_empty Math_min_def Math_max_def Let_def
      empty_trajectory_def js_at_def js_sub_def js_pow2_def)

text \<open>
  C8, as the claim states it: on an empty store the statistics would report "no data"
  and divide by nothing. \<^verbatim>\<open>arrayStats\<close> of the empty array divides the sum 0 by the
  length 0 for its mean and reports numbers: \<^verbatim>\<open>NaN\<close> for the mean and the deviation,
  the two infinities for the minimum and the maximum. The maximal speed \<^verbatim>\<open>-Infinity\<close>
  of the empty store even passes the check against 500.
\<close>

theorem arrayStats_empty_divides_by_zero:
  "arrayStats args_100000 [] =
     Inr \<lparr> mean = js_div (Fin 0) (Fin (real (length ([] :: jsnum list)))),
           min_v = PInf, max_v = NInf, std = NaN \<rparr>
   \<and> real (length ([] :: jsnum list)) = 0
   \<and> arrayStats args_100000 [] = Inr \<lparr> mean = NaN, min_v = PInf, max_v = NInf, std = NaN \<rparr>
   \<and> \<not> isl (analyzeTrajectory args_100000 empty_trajectory)
   \<and> maxSpeed (checks (projr (analyzeTrajectory args_100000 empty_trajectory))) = NInf
   \<and> speedReasonable (checks (projr (analyzeTrajectory args_100000 empty_trajectory)))"
proof -
  obtain an where "analyzeTrajectory args_100000 empty_trajectory = Inr an"
    and "maxSpeed (checks an) = NInf" and "speedReasonable (checks an)"
    using analyzeTrajectory_empty [of args_100000] by blast
  then show ?thesis
    by (simp add: arrayStats_empty inf_signed_def)
qed

lemma parse_no_rows:
  assumes "\<forall>line \<in> set (dataLines content). length (tokens line) < 17"
  shows "parseTrajectoryFile pf content = empty_trajectory"
proof -
  have "filter (\<lambda>line. 17 \<le> length (tokens line)) (dataLines content) = []"
    using assms by (auto simp: filter_empty_conv)
  then show ?thesis
    by (simp add: parseTrajectoryFile_def parse_fold rows_of_lines_def)
qed

text \<open>
  C8, amended. A file with no data line of at least 17 tokens gives the store of length
  0. On that store there is no "no data" report: \<^verbatim>\<open>arrayStats\<close> gives \<^verbatim>\<open>NaN\<close> for the
  mean and the standard deviation, \<^verbatim>\<open>Infinity\<close> for the minimum and \<^verbatim>\<open>-Infinity\<close>
  for the maximum, and \<^verbatim>\<open>analyzeTrajectory\<close> returns with 0 samples, the duration
  \<^verbatim>\<open>NaN\<close> and \<^verbatim>\<open>NaN\<close> for every component of the drift.
\<close>

theorem empty_store_statistics:
  "((\<forall>line \<in> set (dataLines content). length (tokens line) < 17) \<longrightarrow>
      parseTrajectoryFile pf content = empty_trajectory)
   \<and> (\<forall>c \<in> set (channels empty_trajectory). length c = 0)
   \<and> arrayStats L [] = Inr \<lparr> mean = NaN, min_v = PInf, max_v = NInf, std = NaN \<rparr>
   \<and> \<not> isl (analyzeTrajectory L empty_trajectory)
   \<and> samples (projr (analyzeTrajectory L empty_trajectory)) = 0
   \<and> duration (projr (analyzeTrajectory L empty_trajectory)) = NaN
   \<and> drift (projr (analyzeTrajectory L empty_trajectory)) =
       \<lparr> d_north = NaN, d_east = NaN, d_alt = NaN, d_total = NaN \<rparr>
   \<and> speed (projr (analyzeTrajectory L empty_trajectory)) =
       \<lparr> mean = NaN, min_v = PInf, max_v = NInf, std = NaN \<rparr>"
proof -
  obtain an where "analyzeTrajectory L empty_trajectory = Inr an"
    and "samples an = 0" and "duration an = NaN"
    and "drift an = \<lparr> d_north = NaN, d_east = NaN, d_alt = NaN, d_total = NaN \<rparr>"
    and "speed an = \<lparr> mean = NaN, min_v = PInf, max_v = NInf, std = NaN \<rparr>"
    using analyzeTrajectory_empty [of L] by blast
  moreover have "\<forall>c \<in> set (channels empty_trajectory). length c = 0"
    by (simp add: channels_def empty_trajectory_def)
  ultimately show ?thesis
    using parse_no_rows [of content pf] by (simp add: arrayStats_empty)
qed

theorem empty_store_statistics_witness:
  "dataLines [116, 10, 49, 32, 50] = [[49, 32, 50]]
   \<and> length (tokens [49, 32, 50]) < 17
   \<and> parseTrajectoryFile digit_or_NaN [116, 10, 49, 32, 50] = empty_trajectory
   \<and> length (time (parseTrajectoryFile digit_or_NaN [116, 10, 49, 32, 50])) = 0
   \<and> \<not> isl (analyzeTrajectory args_100000 (parseTrajectoryFile digit_or_NaN [116, 10, 49, 32, 50]))
   \<and> mean (speed (projr (analyzeTrajectory args_100000
        (parseTrajectoryFile digit_or_NaN [116, 10, 49, 32, 50])))) = NaN"
proof -
  have lines: "dataLines [116, 10, 49, 32, 50] = [[49, 32, 50]]"
    by (simp add: dataLines_def trim_def is_space_def)
  have short: "\<forall>line \<in> set (dataLines [116, 10, 49, 32, 50]). length (tokens line) < 17"
    by (simp add: lines sample_file_tokens)
  show ?thesis
    using short lines
      empty_store_statistics [where content = "[116, 10, 49, 32, 50]" and pf = digit_or_NaN
        and L = args_100000]
    by (simp add: empty_trajectory_def)
qed

end
